theory Spec2Isabelle
  imports Main "HOL-Library.Word" "HOL-Library.AList" "HOL-Library.Multiset"
begin

section \<open>Values exchanged with the libraries\<close>

text \<open>
  Byte strings are lists of octets. A \<open>common.Hash\<close> and a \<open>common.Address\<close> are
  fixed-size byte arrays in Go; here they are byte lists (32 and 20 octets by convention),
  and \<open>Bytes()\<close> is the identity.
\<close>

type_synonym bytes = "8 word list"
type_synonym hash = bytes
type_synonym address = bytes

text \<open>
  Go errors are values. The errors built by \<open>fmt.Errorf\<close> in transformer.go get a
  constructor of their own; every error handed back by a library or by another package
  is \<open>External\<close> with its message.
\<close>

datatype error =
    External string
  | ShapeMismatch nat nat nat nat
  | LeafNotTwoElements

text \<open>Run-time panics of Go: a slice index out of range, a failed type assertion.\<close>

datatype panic =
    IndexOutOfRange nat nat
  | TypeAssertion
  | ExternalPanic string

text \<open>The result of a call that returns \<open>(value, error)\<close> and may panic.\<close>

datatype 'a res = Ok 'a | Fail error | Panic panic

text \<open>What \<open>rlp.DecodeBytes\<close> stores into a \<open>[]interface{}\<close>: byte strings and lists.\<close>

datatype rlp_value = RBytes bytes | RList "rlp_value list"

text \<open>A CID: multicodec and multihash.\<close>

datatype cid = CidV1 nat bytes

record ipld_node =
  Cid :: cid
  RawData :: bytes

record header =
  hdr_ParentHash :: hash
  hdr_Number :: int
  hdr_Hash :: hash
  hdr_Bloom :: bytes
  hdr_Root :: hash
  hdr_ReceiptHash :: hash
  hdr_TxHash :: hash
  hdr_UncleHash :: hash
  hdr_Time :: "64 word"

text \<open>\<open>ipld.EthHeader\<close> embeds the header and is an IPLD node.\<close>

record EthHeader =
  eh_Header :: header
  eh_Node :: ipld_node

record transaction =
  trx_To :: "address option"
  trx_Hash :: hash
  trx_Data :: bytes

record log_entry =
  log_Address :: address
  log_Topics :: "hash list"

record receipt =
  rct_ContractAddress :: address
  rct_Logs :: "log_entry list"

record block =
  blk_Header :: header
  blk_Transactions :: "transaction list"
  blk_Uncles :: "header list"

record account =
  acc_Nonce :: "64 word"
  acc_Balance :: int
  acc_Root :: hash
  acc_CodeHash :: bytes

text \<open>\<open>statediff.NodeType\<close> is a string type; \<open>statediff.Leaf\<close> is one of its constants.\<close>

type_synonym NodeType = string

definition Leaf :: NodeType where
  "Leaf = ''Leaf''"

record StorageNode =
  sto_NodeType :: NodeType
  sto_Path :: bytes
  sto_NodeValue :: bytes
  sto_LeafKey :: bytes

record StateNode =
  stn_NodeType :: NodeType
  stn_Path :: bytes
  stn_NodeValue :: bytes
  stn_StorageNodes :: "StorageNode list"
  stn_LeafKey :: bytes

record StateObject =
  Nodes :: "StateNode list"

record Payload =
  BlockRlp :: bytes
  ReceiptsRlp :: bytes
  StateObjectRlp :: bytes
  TotalDifficulty :: int

section \<open>Index rows\<close>

text \<open>The models of the indexer, with the fields the struct literals of transformer.go fill.\<close>

record HeaderModel =
  hm_CID :: string
  hm_MhKey :: string
  hm_ParentHash :: string
  hm_BlockNumber :: string
  hm_BlockHash :: string
  hm_TotalDifficulty :: string
  hm_Reward :: string
  hm_Bloom :: bytes
  hm_StateRoot :: string
  hm_RctRoot :: string
  hm_TxRoot :: string
  hm_UncleRoot :: string
  hm_Timestamp :: "64 word"

record UncleModel =
  um_CID :: string
  um_MhKey :: string
  um_ParentHash :: string
  um_BlockHash :: string
  um_Reward :: string

record TxModel =
  tm_Dst :: string
  tm_Src :: string
  tm_TxHash :: string
  tm_Index :: int
  tm_Data :: bytes
  tm_Deployment :: bool
  tm_CID :: string
  tm_MhKey :: string

record ReceiptModel =
  Topic0s :: "string list"
  Topic1s :: "string list"
  Topic2s :: "string list"
  Topic3s :: "string list"
  Contract :: string
  ContractHash :: string
  LogContracts :: "string list"
  rm_CID :: string
  rm_MhKey :: string

record StateNodeModel =
  snm_Path :: bytes
  snm_StateKey :: string
  snm_CID :: string
  snm_MhKey :: string
  snm_NodeType :: int

record StateAccountModel =
  sam_Balance :: string
  sam_Nonce :: "64 word"
  sam_CodeHash :: bytes
  sam_StorageRoot :: string

record StorageNodeModel =
  stm_Path :: bytes
  stm_StorageKey :: string
  stm_CID :: string
  stm_MhKey :: string
  stm_NodeType :: int

text \<open>
  The relational store. A row is its surrogate id, the id of its parent row and its
  model. \<open>blocks\<close> is the blob table as the sequence of writes \<open>(key, data)\<close>: a
  lookup (\<open>map_of\<close>) takes the first write of a key, so writing a key again leaves what
  is visible unchanged.
\<close>

record tables =
  blocks :: "(string \<times> bytes) list"
  header_cids :: "(int \<times> HeaderModel) list"
  uncle_cids :: "(int \<times> int \<times> UncleModel) list"
  transaction_cids :: "(int \<times> int \<times> TxModel) list"
  receipt_cids :: "(int \<times> int \<times> ReceiptModel) list"
  state_cids :: "(int \<times> int \<times> StateNodeModel) list"
  state_accounts :: "(int \<times> int \<times> StateAccountModel) list"
  storage_cids :: "(int \<times> int \<times> StorageNodeModel) list"

text \<open>
  An open transaction (\<open>*sqlx.Tx\<close>): the tables as the transaction sees them, and the
  number of statements it has run.
\<close>

record txstate =
  tabs :: tables
  opcount :: nat

datatype txevent = TxBegin | TxCommit | TxCommitFailed error | TxRollback

text \<open>The database: the committed tables and the history of transaction control calls.\<close>

record db =
  committed :: tables
  events :: "txevent list"

datatype fault = FErr error | FPanic panic

section \<open>The collaborators of the transformer\<close>

text \<open>
  Everything transformer.go calls in go-ethereum, go-ipld-format, go-multihash and sqlx,
  and the helpers of the repository whose result the file only passes on, is a field of
  the environment. \<open>store_fault\<close> tells whether the n-th statement of a transaction
  fails (with an error or a panic), \<open>begin_fault\<close> and \<open>commit_fault\<close> whether
  \<open>Beginx\<close> and \<open>Commit\<close> fail. \<open>rangeOrder\<close> is the order in which the Go runtime
  hands out the keys of a map in a \<open>range\<close> loop: the language leaves it unspecified, and
  it may differ from one loop to the next and from one run to the next.
  \<open>MultihashKeyFromCIDString\<close> is the string it returns: both calls drop its error.
\<close>

record env =
  rlpDecodeBlock :: "bytes \<Rightarrow> error + block"
  rlpDecodeReceipts :: "bytes \<Rightarrow> error + receipt list"
  rlpDecodeStateObject :: "bytes \<Rightarrow> error + StateObject"
  rlpDecodeList :: "bytes \<Rightarrow> error + rlp_value list"
  rlpDecodeAccount :: "bytes \<Rightarrow> error + account"
  DeriveFields :: "receipt list \<Rightarrow> hash \<Rightarrow> 64 word \<Rightarrow> transaction list \<Rightarrow> error + receipt list"
  FromBlockAndReceipts :: "block \<Rightarrow> receipt list \<Rightarrow>
    error + (ipld_node \<times> EthHeader list \<times> ipld_node list \<times> ipld_node list \<times> ipld_node list \<times> ipld_node list)"
  CalcEthBlockReward :: "header \<Rightarrow> header list \<Rightarrow> transaction list \<Rightarrow> receipt list \<Rightarrow> int"
  CalcUncleMinerReward :: "64 word \<Rightarrow> 64 word \<Rightarrow> int"
  MakeSigner :: "int \<Rightarrow> nat"
  Sender :: "nat \<Rightarrow> transaction \<Rightarrow> error + address"
  Keccak256Hash :: "bytes \<Rightarrow> hash"
  multihashSum :: "nat \<Rightarrow> bytes \<Rightarrow> bytes"
  hashString :: "hash \<Rightarrow> string"
  BytesToHash :: "bytes \<Rightarrow> hash"
  addrString :: "address \<Rightarrow> string"
  HexToAddress :: "string \<Rightarrow> address"
  HandleZeroAddrPointer :: "address option \<Rightarrow> string"
  bigString :: "int \<Rightarrow> string"
  cidString :: "cid \<Rightarrow> string"
  MultihashKeyFromCID :: "cid \<Rightarrow> string"
  MultihashKeyFromCIDString :: "string \<Rightarrow> string"
  ResolveFromNodeType :: "NodeType \<Rightarrow> int"
  store_fault :: "nat \<Rightarrow> fault option"
  begin_fault :: "error option"
  commit_fault :: "error option"
  rangeOrder :: "nat \<Rightarrow> string list \<Rightarrow> string list"

text \<open>Constants of the packages \<open>ipld\<close> and \<open>multihash\<close>.\<close>

definition MEthStateTrie :: nat where
  "MEthStateTrie = 0x96"

definition MEthStorageTrie :: nat where
  "MEthStorageTrie = 0x98"

definition KECCAK_256 :: nat where
  "KECCAK_256 = 0x1b"

text \<open>\<open>big.Int.Int64\<close> and \<open>Block.NumberU64\<close>: the low 64 bits.\<close>

definition Int64 :: "int \<Rightarrow> 64 word" where
  "Int64 n = word_of_int n"

definition NumberU64 :: "block \<Rightarrow> 64 word" where
  "NumberU64 b = word_of_int (hdr_Number (blk_Header b))"

section \<open>Sequencing statements of a transaction\<close>

type_synonym 'a txop = "txstate \<Rightarrow> 'a res \<times> txstate"

text \<open>
  \<open>andThen m f\<close> runs \<open>m\<close> and, when it returned without an error, \<open>f\<close> on its value:
  the Go idiom \<open>if err != nil { return err }\<close> after each call. An error or a panic ends
  the sequence; the rows written so far stay in the transaction.
\<close>

definition andThen :: "'a txop \<Rightarrow> ('a \<Rightarrow> 'b txop) \<Rightarrow> 'b txop" where
  "andThen m f tx =
     (case m tx of
        (Ok a, tx') \<Rightarrow> f a tx'
      | (Fail e, tx') \<Rightarrow> (Fail e, tx')
      | (Panic p, tx') \<Rightarrow> (Panic p, tx'))"

definition yield :: "'a res \<Rightarrow> 'a txop" where
  "yield r tx = (r, tx)"

definition from_call :: "error + 'a \<Rightarrow> 'a res" where
  "from_call r = (case r of Inl e \<Rightarrow> Fail e | Inr a \<Rightarrow> Ok a)"

text \<open>\<open>xs[i]\<close> on a slice: a panic when the index is out of range.\<close>

definition at_index :: "'a list \<Rightarrow> nat \<Rightarrow> 'a res" where
  "at_index xs i = (if i < length xs then Ok (xs ! i) else Panic (IndexOutOfRange i (length xs)))"

section \<open>Publisher and indexer\<close>

text \<open>
  Modelled from the spec: the packages \<open>shared\<close> (PublishIPLD, PublishRaw, Rollback,
  HandleZeroAddr) and the \<open>CIDIndexer\<close> are not part of the sources at hand. A statement
  of the transaction either fails as the environment says or changes the tables.
\<close>

definition storeOp :: "env \<Rightarrow> (tables \<Rightarrow> 'a \<times> tables) \<Rightarrow> 'a txop" where
  "storeOp E f tx =
     (case store_fault E (opcount tx) of
        Some (FErr e) \<Rightarrow> (Fail e, tx\<lparr>opcount := Suc (opcount tx)\<rparr>)
      | Some (FPanic p) \<Rightarrow> (Panic p, tx\<lparr>opcount := Suc (opcount tx)\<rparr>)
      | None \<Rightarrow> (Ok (fst (f (tabs tx))), \<lparr>tabs = snd (f (tabs tx)), opcount = Suc (opcount tx)\<rparr>))"

text \<open>
  Modelled from the spec: \<open>PublishIPLD(tx, node)\<close> writes \<open>node.RawData()\<close> under
  \<open>multihashKey(node.Cid())\<close>.
\<close>

definition PublishIPLD :: "env \<Rightarrow> ipld_node \<Rightarrow> unit txop" where
  "PublishIPLD E n =
     storeOp E (\<lambda>t. ((), t\<lparr>blocks := blocks t @ [(MultihashKeyFromCID E (Cid n), RawData n)]\<rparr>))"

text \<open>
  Modelled from the spec: \<open>PublishRaw(tx, codec, hashfn, bytes)\<close> computes the CID from
  \<open>(codec, hashfn(bytes))\<close>, writes the bytes under the derived key and returns the
  string CID.
\<close>

definition PublishRaw :: "env \<Rightarrow> nat \<Rightarrow> nat \<Rightarrow> bytes \<Rightarrow> string txop" where
  "PublishRaw E codec mhType raw =
     storeOp E (\<lambda>t. (cidString E (CidV1 codec (multihashSum E mhType raw)),
        t\<lparr>blocks := blocks t @
          [(MultihashKeyFromCID E (CidV1 codec (multihashSum E mhType raw)), raw)]\<rparr>))"

text \<open>
  Modelled from the spec: every \<open>indexXCID(tx, model, parent_id)\<close> inserts one row
  within the caller's transaction and returns its surrogate id (a serial number).
\<close>

definition indexHeaderCID :: "env \<Rightarrow> HeaderModel \<Rightarrow> int txop" where
  "indexHeaderCID E m =
     storeOp E (\<lambda>t. (int (length (header_cids t)) + 1,
        t\<lparr>header_cids := header_cids t @ [(int (length (header_cids t)) + 1, m)]\<rparr>))"

definition indexUncleCID :: "env \<Rightarrow> UncleModel \<Rightarrow> int \<Rightarrow> unit txop" where
  "indexUncleCID E m headerID =
     storeOp E (\<lambda>t. ((),
        t\<lparr>uncle_cids := uncle_cids t @ [(int (length (uncle_cids t)) + 1, headerID, m)]\<rparr>))"

definition indexTransactionCID :: "env \<Rightarrow> TxModel \<Rightarrow> int \<Rightarrow> int txop" where
  "indexTransactionCID E m headerID =
     storeOp E (\<lambda>t. (int (length (transaction_cids t)) + 1,
        t\<lparr>transaction_cids := transaction_cids t @
          [(int (length (transaction_cids t)) + 1, headerID, m)]\<rparr>))"

definition indexReceiptCID :: "env \<Rightarrow> ReceiptModel \<Rightarrow> int \<Rightarrow> unit txop" where
  "indexReceiptCID E m txID =
     storeOp E (\<lambda>t. ((),
        t\<lparr>receipt_cids := receipt_cids t @ [(int (length (receipt_cids t)) + 1, txID, m)]\<rparr>))"

definition indexStateCID :: "env \<Rightarrow> StateNodeModel \<Rightarrow> int \<Rightarrow> int txop" where
  "indexStateCID E m headerID =
     storeOp E (\<lambda>t. (int (length (state_cids t)) + 1,
        t\<lparr>state_cids := state_cids t @ [(int (length (state_cids t)) + 1, headerID, m)]\<rparr>))"

definition indexStateAccount :: "env \<Rightarrow> StateAccountModel \<Rightarrow> int \<Rightarrow> unit txop" where
  "indexStateAccount E m stateID =
     storeOp E (\<lambda>t. ((),
        t\<lparr>state_accounts := state_accounts t @
          [(int (length (state_accounts t)) + 1, stateID, m)]\<rparr>))"

definition indexStorageCID :: "env \<Rightarrow> StorageNodeModel \<Rightarrow> int \<Rightarrow> unit txop" where
  "indexStorageCID E m stateID =
     storeOp E (\<lambda>t. ((),
        t\<lparr>storage_cids := storage_cids t @ [(int (length (storage_cids t)) + 1, stateID, m)]\<rparr>))"

text \<open>
  Modelled from the spec: \<open>HandleZeroAddr\<close> gives the empty string for the zero address
  (the receipt of a transaction that creates no contract) and the address as a string
  otherwise.
\<close>

definition zeroAddress :: address where
  "zeroAddress = replicate 20 0"

definition HandleZeroAddr :: "env \<Rightarrow> address \<Rightarrow> string" where
  "HandleZeroAddr E a = (if a = zeroAddress then [] else addrString E a)"

text \<open>Transaction control (sqlx, and \<open>shared.Rollback\<close>, which logs a failure and returns).\<close>

definition Beginx :: "env \<Rightarrow> db \<Rightarrow> (error + txstate) \<times> db" where
  "Beginx E d =
     (case begin_fault E of
        Some e \<Rightarrow> (Inl e, d)
      | None \<Rightarrow> (Inr \<lparr>tabs = committed d, opcount = 0\<rparr>, d\<lparr>events := events d @ [TxBegin]\<rparr>))"

definition Commit :: "env \<Rightarrow> db \<Rightarrow> txstate \<Rightarrow> error option \<times> db" where
  "Commit E d tx =
     (case commit_fault E of
        Some e \<Rightarrow> (Some e, d\<lparr>events := events d @ [TxCommitFailed e]\<rparr>)
      | None \<Rightarrow> (None, \<lparr>committed = tabs tx, events = events d @ [TxCommit]\<rparr>))"

definition Rollback :: "db \<Rightarrow> txstate \<Rightarrow> db" where
  "Rollback d tx = d\<lparr>events := events d @ [TxRollback]\<rparr>"

section \<open>transformer.go\<close>

subsection \<open>processHeader\<close>

definition processHeader :: "env \<Rightarrow> header \<Rightarrow> ipld_node \<Rightarrow> int \<Rightarrow> int \<Rightarrow> int txop" where
  "processHeader E hdr headerNode reward td =
     andThen (PublishIPLD E headerNode) (\<lambda>_.
       indexHeaderCID E \<lparr>
         hm_CID = cidString E (Cid headerNode),
         hm_MhKey = MultihashKeyFromCID E (Cid headerNode),
         hm_ParentHash = hashString E (hdr_ParentHash hdr),
         hm_BlockNumber = bigString E (hdr_Number hdr),
         hm_BlockHash = hashString E (hdr_Hash hdr),
         hm_TotalDifficulty = bigString E td,
         hm_Reward = bigString E reward,
         hm_Bloom = hdr_Bloom hdr,
         hm_StateRoot = hashString E (hdr_Root hdr),
         hm_RctRoot = hashString E (hdr_ReceiptHash hdr),
         hm_TxRoot = hashString E (hdr_TxHash hdr),
         hm_UncleRoot = hashString E (hdr_UncleHash hdr),
         hm_Timestamp = hdr_Time hdr\<rparr>)"

subsection \<open>processUncles\<close>

fun processUncles :: "env \<Rightarrow> int \<Rightarrow> 64 word \<Rightarrow> EthHeader list \<Rightarrow> unit txop" where
  "processUncles E headerID blockNumber [] = yield (Ok ())"
| "processUncles E headerID blockNumber (uncleNode # rest) =
     andThen (PublishIPLD E (eh_Node uncleNode)) (\<lambda>_.
     andThen (indexUncleCID E \<lparr>
         um_CID = cidString E (Cid (eh_Node uncleNode)),
         um_MhKey = MultihashKeyFromCID E (Cid (eh_Node uncleNode)),
         um_ParentHash = hashString E (hdr_ParentHash (eh_Header uncleNode)),
         um_BlockHash = hashString E (hdr_Hash (eh_Header uncleNode)),
         um_Reward = bigString E
           (CalcUncleMinerReward E blockNumber (Int64 (hdr_Number (eh_Header uncleNode))))\<rparr>
       headerID) (\<lambda>_.
     processUncles E headerID blockNumber rest))"

subsection \<open>processReceiptsAndTxs\<close>

record processArgs =
  headerID :: int
  blockNumber :: int
  receipts :: "receipt list"
  txs :: "transaction list"
  rctNodes :: "ipld_node list"
  rctTrieNodes :: "ipld_node list"
  txNodes :: "ipld_node list"
  txTrieNodes :: "ipld_node list"

text \<open>
  The inner loop \<open>for i, topic := range log.Topics\<close>: topic \<open>i\<close> of the log is appended
  to \<open>topicSets[i]\<close>. \<open>topicSets\<close> has four elements, so the index expression panics
  from the fifth topic on.
\<close>

fun topicLoop :: "env \<Rightarrow> string list list \<Rightarrow> nat \<Rightarrow> hash list \<Rightarrow> string list list res" where
  "topicLoop E topicSets i [] = Ok topicSets"
| "topicLoop E topicSets i (topic # rest) =
     (if i < length topicSets
      then topicLoop E (topicSets[i := topicSets ! i @ [hashString E topic]]) (Suc i) rest
      else Panic (IndexOutOfRange i (length topicSets)))"

text \<open>
  The loop \<open>for _, log := range receipt.Logs\<close>. \<open>mappedContracts\<close> is a Go map from
  strings to booleans, here the association list of its entries.
\<close>

fun logLoop :: "env \<Rightarrow> string list list \<Rightarrow> (string \<times> bool) list \<Rightarrow> log_entry list \<Rightarrow>
    (string list list \<times> (string \<times> bool) list) res" where
  "logLoop E topicSets mappedContracts [] = Ok (topicSets, mappedContracts)"
| "logLoop E topicSets mappedContracts (l # rest) =
     (case topicLoop E topicSets 0 (log_Topics l) of
        Ok topicSets' \<Rightarrow>
          logLoop E topicSets' (AList.update (addrString E (log_Address l)) True mappedContracts) rest
      | Fail e \<Rightarrow> Fail e
      | Panic p \<Rightarrow> Panic p)"

text \<open>
  \<open>for addr := range mappedContracts { logContracts = append(logContracts, addr) }\<close>:
  the keys of the map, in the order the runtime chooses for this loop.
\<close>

definition rangeKeys :: "env \<Rightarrow> nat \<Rightarrow> (string \<times> bool) list \<Rightarrow> string list" where
  "rangeKeys E i mappedContracts = rangeOrder E i (map fst mappedContracts)"

text \<open>The body of the loop \<open>for i, receipt := range args.receipts\<close>.\<close>

definition processReceiptAndTx :: "env \<Rightarrow> processArgs \<Rightarrow> nat \<Rightarrow> nat \<Rightarrow> receipt \<Rightarrow> unit txop" where
  "processReceiptAndTx E args signer i rct =
     andThen (yield (at_index (txs args) i)) (\<lambda>trx.
     andThen (yield (from_call (Sender E signer trx))) (\<lambda>fromAddr.
     andThen (yield (at_index (txTrieNodes args) i)) (\<lambda>txTrieNode.
     andThen (PublishIPLD E txTrieNode) (\<lambda>_.
     andThen (yield (at_index (rctTrieNodes args) i)) (\<lambda>rctTrieNode.
     andThen (PublishIPLD E rctTrieNode) (\<lambda>_.
     andThen (yield (at_index (txNodes args) i)) (\<lambda>txNode.
     andThen (yield (at_index (rctNodes args) i)) (\<lambda>rctNode.
     andThen (PublishIPLD E txNode) (\<lambda>_.
     andThen (PublishIPLD E rctNode) (\<lambda>_.
     andThen (yield (logLoop E (replicate 4 []) [] (rct_Logs rct))) (\<lambda>(topicSets, mappedContracts).
     let logContracts = rangeKeys E i mappedContracts;
         contract = HandleZeroAddr E (rct_ContractAddress rct);
         deployment = (contract \<noteq> []);
         contractHash = (if contract \<noteq> []
           then hashString E (Keccak256Hash E (HexToAddress E contract)) else [])
     in
     andThen (if contract \<noteq> []
              then andThen (PublishRaw E MEthStorageTrie KECCAK_256 (trx_Data trx)) (\<lambda>_. yield (Ok ()))
              else yield (Ok ())) (\<lambda>_.
     andThen (indexTransactionCID E \<lparr>
         tm_Dst = HandleZeroAddrPointer E (trx_To trx),
         tm_Src = HandleZeroAddr E fromAddr,
         tm_TxHash = hashString E (trx_Hash trx),
         tm_Index = int i,
         tm_Data = trx_Data trx,
         tm_Deployment = deployment,
         tm_CID = cidString E (Cid txNode),
         tm_MhKey = MultihashKeyFromCID E (Cid txNode)\<rparr>
       (headerID args)) (\<lambda>txID.
     indexReceiptCID E \<lparr>
         Topic0s = topicSets ! 0,
         Topic1s = topicSets ! 1,
         Topic2s = topicSets ! 2,
         Topic3s = topicSets ! 3,
         Contract = contract,
         ContractHash = contractHash,
         LogContracts = logContracts,
         rm_CID = cidString E (Cid rctNode),
         rm_MhKey = MultihashKeyFromCID E (Cid rctNode)\<rparr>
       txID)))))))))))))"

fun receiptsLoop :: "env \<Rightarrow> processArgs \<Rightarrow> nat \<Rightarrow> nat \<Rightarrow> receipt list \<Rightarrow> unit txop" where
  "receiptsLoop E args signer i [] = yield (Ok ())"
| "receiptsLoop E args signer i (rct # rest) =
     andThen (processReceiptAndTx E args signer i rct) (\<lambda>_.
       receiptsLoop E args signer (Suc i) rest)"

definition processReceiptsAndTxs :: "env \<Rightarrow> processArgs \<Rightarrow> unit txop" where
  "processReceiptsAndTxs E args =
     receiptsLoop E args (MakeSigner E (blockNumber args)) 0 (receipts args)"

subsection \<open>processStateAndStorage\<close>

text \<open>The loop \<open>for _, storageNode := range stateNode.StorageNodes\<close>.\<close>

fun storageLoop :: "env \<Rightarrow> int \<Rightarrow> StorageNode list \<Rightarrow> unit txop" where
  "storageLoop E stateID [] = yield (Ok ())"
| "storageLoop E stateID (storageNode # rest) =
     andThen (PublishRaw E MEthStorageTrie KECCAK_256 (sto_NodeValue storageNode)) (\<lambda>storageCIDStr.
     andThen (indexStorageCID E \<lparr>
         stm_Path = sto_Path storageNode,
         stm_StorageKey = hashString E (BytesToHash E (sto_LeafKey storageNode)),
         stm_CID = storageCIDStr,
         stm_MhKey = MultihashKeyFromCIDString E storageCIDStr,
         stm_NodeType = ResolveFromNodeType E (sto_NodeType storageNode)\<rparr>
       stateID) (\<lambda>_.
     storageLoop E stateID rest))"

text \<open>
  \<open>i[1].([]byte)\<close>: a type assertion on an \<open>interface{}\<close>, which panics when the
  element is a list.
\<close>

definition assertBytes :: "rlp_value \<Rightarrow> bytes res" where
  "assertBytes v = (case v of RBytes b \<Rightarrow> Ok b | RList _ \<Rightarrow> Panic TypeAssertion)"

text \<open>The part of the loop body guarded by \<open>stateNode.NodeType == statediff.Leaf\<close>.\<close>

definition indexLeafAccount :: "env \<Rightarrow> StateNode \<Rightarrow> int \<Rightarrow> unit txop" where
  "indexLeafAccount E stateNode stateID =
     andThen (yield (from_call (rlpDecodeList E (stn_NodeValue stateNode)))) (\<lambda>i.
     if length i \<noteq> 2 then yield (Fail LeafNotTwoElements)
     else
       andThen (yield (assertBytes (i ! 1))) (\<lambda>b.
       andThen (yield (from_call (rlpDecodeAccount E b))) (\<lambda>account.
       indexStateAccount E \<lparr>
           sam_Balance = bigString E (acc_Balance account),
           sam_Nonce = acc_Nonce account,
           sam_CodeHash = acc_CodeHash account,
           sam_StorageRoot = hashString E (acc_Root account)\<rparr>
         stateID)))"

text \<open>The body of the loop \<open>for _, stateNode := range stateDiff.Nodes\<close>.\<close>

definition processStateNode :: "env \<Rightarrow> int \<Rightarrow> StateNode \<Rightarrow> unit txop" where
  "processStateNode E hID stateNode =
     andThen (PublishRaw E MEthStateTrie KECCAK_256 (stn_NodeValue stateNode)) (\<lambda>stateCIDStr.
     andThen (indexStateCID E \<lparr>
         snm_Path = stn_Path stateNode,
         snm_StateKey = hashString E (BytesToHash E (stn_LeafKey stateNode)),
         snm_CID = stateCIDStr,
         snm_MhKey = MultihashKeyFromCIDString E stateCIDStr,
         snm_NodeType = ResolveFromNodeType E (stn_NodeType stateNode)\<rparr>
       hID) (\<lambda>stateID.
     andThen (if stn_NodeType stateNode = Leaf
              then indexLeafAccount E stateNode stateID
              else yield (Ok ())) (\<lambda>_.
     storageLoop E stateID (stn_StorageNodes stateNode))))"

fun stateLoop :: "env \<Rightarrow> int \<Rightarrow> StateNode list \<Rightarrow> unit txop" where
  "stateLoop E hID [] = yield (Ok ())"
| "stateLoop E hID (stateNode # rest) =
     andThen (processStateNode E hID stateNode) (\<lambda>_. stateLoop E hID rest)"

definition processStateAndStorage :: "env \<Rightarrow> int \<Rightarrow> StateObject \<Rightarrow> unit txop" where
  "processStateAndStorage E hID stateDiff = stateLoop E hID (Nodes stateDiff)"

subsection \<open>Transform\<close>

text \<open>How a call of \<open>Transform\<close> ends: it returns \<open>(int64, error)\<close>, or it panics.\<close>

datatype transform_result = Returns "64 word" "error option" | Panics panic

text \<open>The condition of the \<open>if\<close> in lines 87 to 89.\<close>

definition shapeMismatch :: "'a list \<Rightarrow> 'b list \<Rightarrow> 'c list \<Rightarrow> 'd list \<Rightarrow> bool" where
  "shapeMismatch txNs txTrieNs rctNs rctTrieNs =
     (length txNs \<noteq> length txTrieNs \<and> length rctNs \<noteq> length rctTrieNs \<and>
      length txNs \<noteq> length rctNs)"

text \<open>
  Lines 106 to 140, the statements that run with the transaction open. The result has
  three parts: how the body ends, the value of the variable \<open>err\<close> of the function
  scope when it ends, and the transaction. \<open>headerID, err := sdt.processHeader(...)\<close>
  assigns to the \<open>err\<close> of the function scope, which the deferred closure reads. Each
  of the four later steps is \<open>if err := ...; err != nil { return 0, err }\<close>: that
  \<open>err\<close> is a new variable of the \<open>if\<close> statement, so the \<open>err\<close> of the function
  scope keeps the nil that \<open>processHeader\<close> left.
\<close>

definition Transform_body :: "env \<Rightarrow> Payload \<Rightarrow> block \<Rightarrow> receipt list \<Rightarrow>
    ipld_node \<Rightarrow> EthHeader list \<Rightarrow> ipld_node list \<Rightarrow> ipld_node list \<Rightarrow> ipld_node list \<Rightarrow>
    ipld_node list \<Rightarrow> txstate \<Rightarrow> transform_result \<times> error option \<times> txstate" where
  "Transform_body E payload blk rcts headerNode uncleNodes txNs txTrieNs rctNs rctTrieNs tx =
     (case processHeader E (blk_Header blk) headerNode
             (CalcEthBlockReward E (blk_Header blk) (blk_Uncles blk) (blk_Transactions blk) rcts)
             (TotalDifficulty payload) tx of
        (Panic p, tx1) \<Rightarrow> (Panics p, None, tx1)
      | (Fail e, tx1) \<Rightarrow> (Returns 0 (Some e), Some e, tx1)
      | (Ok hID, tx1) \<Rightarrow>
     (case processUncles E hID (Int64 (hdr_Number (blk_Header blk))) uncleNodes tx1 of
        (Panic p, tx2) \<Rightarrow> (Panics p, None, tx2)
      | (Fail e, tx2) \<Rightarrow> (Returns 0 (Some e), None, tx2)
      | (Ok _, tx2) \<Rightarrow>
     (case processReceiptsAndTxs E \<lparr>
               headerID = hID,
               blockNumber = hdr_Number (blk_Header blk),
               receipts = rcts,
               txs = blk_Transactions blk,
               rctNodes = rctNs,
               rctTrieNodes = rctTrieNs,
               txNodes = txNs,
               txTrieNodes = txTrieNs\<rparr> tx2 of
        (Panic p, tx3) \<Rightarrow> (Panics p, None, tx3)
      | (Fail e, tx3) \<Rightarrow> (Returns 0 (Some e), None, tx3)
      | (Ok _, tx3) \<Rightarrow>
     (case rlpDecodeStateObject E (StateObjectRlp payload) of
        Inl e \<Rightarrow> (Returns 0 (Some e), None, tx3)
      | Inr stateDiff \<Rightarrow>
     (case processStateAndStorage E hID stateDiff tx3 of
        (Panic p, tx4) \<Rightarrow> (Panics p, None, tx4)
      | (Fail e, tx4) \<Rightarrow> (Returns 0 (Some e), None, tx4)
      | (Ok _, tx4) \<Rightarrow> (Returns (Int64 (hdr_Number (blk_Header blk))) None, None, tx4))))))"

text \<open>
  The deferred closure of lines 95 to 104. It runs when the body ends. After a panic
  it rolls back and panics again with the same value. Otherwise it reads the \<open>err\<close>
  of the function scope: not nil, it rolls back; nil, it commits and assigns the
  result of \<open>Commit\<close> to \<open>err\<close>. The results of \<open>Transform\<close> are unnamed, so the
  values of the \<open>return\<close> statement are what the caller gets, whatever the closure
  assigns.
\<close>

definition Transform_deferred :: "env \<Rightarrow> db \<Rightarrow> txstate \<Rightarrow> transform_result \<Rightarrow> error option \<Rightarrow>
    transform_result \<times> db" where
  "Transform_deferred E d tx r err =
     (case r of
        Panics p \<Rightarrow> (Panics p, Rollback d tx)
      | Returns n e \<Rightarrow>
          (case err of
             Some _ \<Rightarrow> (Returns n e, Rollback d tx)
           | None \<Rightarrow> (Returns n e, snd (Commit E d tx))))"

definition Transform :: "env \<Rightarrow> db \<Rightarrow> int \<Rightarrow> Payload \<Rightarrow> transform_result \<times> db" where
  "Transform E d workerID payload =
     (case rlpDecodeBlock E (BlockRlp payload) of
        Inl e \<Rightarrow> (Returns 0 (Some e), d)
      | Inr blk \<Rightarrow>
     (case rlpDecodeReceipts E (ReceiptsRlp payload) of
        Inl e \<Rightarrow> (Returns 0 (Some e), d)
      | Inr rcts0 \<Rightarrow>
     (case DeriveFields E rcts0 (hdr_Hash (blk_Header blk)) (NumberU64 blk) (blk_Transactions blk) of
        Inl e \<Rightarrow> (Returns 0 (Some e), d)
      | Inr rcts \<Rightarrow>
     (case FromBlockAndReceipts E blk rcts of
        Inl e \<Rightarrow> (Returns 0 (Some e), d)
      | Inr (headerNode, uncleNodes, txNs, txTrieNs, rctNs, rctTrieNs) \<Rightarrow>
          if shapeMismatch txNs txTrieNs rctNs rctTrieNs
          then (Returns 0 (Some (ShapeMismatch (length txNs) (length txTrieNs)
                                   (length rctNs) (length rctTrieNs))), d)
          else
            (case Beginx E d of
               (Inl e, d1) \<Rightarrow> (Returns 0 (Some e), d1)
             | (Inr tx, d1) \<Rightarrow>
                 (case Transform_body E payload blk rcts headerNode uncleNodes
                         txNs txTrieNs rctNs rctTrieNs tx of
                    (r, err, tx') \<Rightarrow> Transform_deferred E d1 tx' r err))))))"

section \<open>The gap finder\<close>

text \<open>
  \<open>eth.header_cids\<close> as far as the gap finder reads it (the block number of each row)
  and \<open>eth.gaps\<close> with its \<open>UNIQUE(start, stop)\<close>.
\<close>

record gap_row =
  start :: int
  stop :: int
  validation :: bool
  checked_out :: bool

record gapdb =
  header_numbers :: "int list"
  gaps :: "gap_row list"

text \<open>
  The statement \<open>migrateEmptyGapsPgStr\<close>. The two left joins and the \<open>WHERE\<close> keep a
  header row when no row holds the next block number (\<open>r.block_number IS NULL\<close>) and
  some row holds a greater one (\<open>fr.block_number IS NOT NULL\<close>); the \<open>GROUP BY\<close> gives
  one row for each such block number, with the least greater block number as
  \<open>min(fr.block_number)\<close>.
\<close>

definition emptyGapsSelect :: "int list \<Rightarrow> (int \<times> int) list" where
  "emptyGapsSelect hs =
     map (\<lambda>h. (h + 1, fold min (filter (\<lambda>f. h < f) hs) (hd (filter (\<lambda>f. h < f) hs)) - 1))
       (filter (\<lambda>h. \<not> List.member hs (h + 1) \<and> filter (\<lambda>f. h < f) hs \<noteq> []) (remdups hs))"

text \<open>\<open>INSERT INTO eth.gaps (start, stop) ... ON CONFLICT (start, stop) DO NOTHING\<close>.\<close>

fun insertGaps :: "(int \<times> int) list \<Rightarrow> gap_row list \<Rightarrow> gap_row list" where
  "insertGaps [] gs = gs"
| "insertGaps ((a, b) # rest) gs =
     insertGaps rest
       (if List.member (map (\<lambda>g. (start g, stop g)) gs) (a, b) then gs
        else gs @ [\<lparr>start = a, stop = b, validation = False, checked_out = False\<rparr>])"

definition migrateEmptyGapsPgStr :: "gapdb \<Rightarrow> gapdb" where
  "migrateEmptyGapsPgStr d = d\<lparr>gaps := insertGaps (emptyGapsSelect (header_numbers d)) (gaps d)\<rparr>"

text \<open>
  \<open>FindGaps\<close>: its body is empty in the source, so it runs no statement and the
  database is as before; the source gives it no \<open>return\<close>, so there is no result to
  model.
\<close>

definition FindGaps :: "gapdb \<Rightarrow> gapdb" where
  "FindGaps d = d"

section \<open>Concrete inputs\<close>

text \<open>
  A small environment and a small payload, on which the definitions above can be run:
  a block with number 7 and one transaction, whose receipt carries a contract address
  and two logs (the first with one topic, the second with two), and a state diff of a
  leaf and a branch node.
\<close>

definition demo_table :: "(8 word \<times> char) list" where
  "demo_table = [(1, CHR ''a''), (2, CHR ''b''), (3, CHR ''c''), (4, CHR ''d'')]"

definition demo_char :: "8 word \<Rightarrow> char" where
  "demo_char w = (case map_of demo_table w of Some c \<Rightarrow> c | None \<Rightarrow> CHR ''z'')"

definition demo_byte :: "char \<Rightarrow> 8 word" where
  "demo_byte c = (case map_of (map (\<lambda>(w, c). (c, w)) demo_table) c of Some w \<Rightarrow> w | None \<Rightarrow> 0)"

definition demo_node :: "nat \<Rightarrow> ipld_node" where
  "demo_node k = \<lparr>Cid = CidV1 k [of_nat k], RawData = [of_nat k]\<rparr>"

definition demo_header :: header where
  "demo_header = \<lparr>hdr_ParentHash = [0], hdr_Number = 7, hdr_Hash = [1], hdr_Bloom = [],
     hdr_Root = [2], hdr_ReceiptHash = [3], hdr_TxHash = [4], hdr_UncleHash = [0, 0],
     hdr_Time = 1600000000\<rparr>"

definition demo_trx :: transaction where
  "demo_trx = \<lparr>trx_To = None, trx_Hash = [1, 1], trx_Data = [96, 128]\<rparr>"

definition demo_block :: block where
  "demo_block = \<lparr>blk_Header = demo_header, blk_Transactions = [demo_trx], blk_Uncles = []\<rparr>"

definition demo_contract :: address where
  "demo_contract = replicate 19 0 @ [1]"

definition demo_logs :: "log_entry list" where
  "demo_logs =
     [\<lparr>log_Address = replicate 19 0 @ [2], log_Topics = [[1]]\<rparr>,
      \<lparr>log_Address = replicate 19 0 @ [3], log_Topics = [[2], [3]]\<rparr>]"

definition demo_receipt :: receipt where
  "demo_receipt = \<lparr>rct_ContractAddress = demo_contract, rct_Logs = demo_logs\<rparr>"

definition demo_account :: account where
  "demo_account = \<lparr>acc_Nonce = 7, acc_Balance = 100, acc_Root = [2, 2], acc_CodeHash = [3, 3]\<rparr>"

definition demo_leaf :: StateNode where
  "demo_leaf = \<lparr>stn_NodeType = Leaf, stn_Path = [1], stn_NodeValue = [4], stn_StorageNodes = [],
     stn_LeafKey = [1, 2]\<rparr>"

definition demo_branch :: StateNode where
  "demo_branch = \<lparr>stn_NodeType = ''Branch'', stn_Path = [], stn_NodeValue = [0],
     stn_StorageNodes = [], stn_LeafKey = []\<rparr>"

definition demo_env :: env where
  "demo_env = \<lparr>
     rlpDecodeBlock = (\<lambda>b. if b = [1] then Inr demo_block else Inl (External ''rlp: block'')),
     rlpDecodeReceipts = (\<lambda>b. if b = [2] then Inr [demo_receipt] else Inl (External ''rlp: receipts'')),
     rlpDecodeStateObject = (\<lambda>b. if b = [3] then Inr \<lparr>Nodes = [demo_leaf, demo_branch]\<rparr>
        else Inl (External ''rlp: state object'')),
     rlpDecodeList = (\<lambda>b. if b = [4] then Inr [RBytes [], RBytes [3]]
        else if b = [2] then Inr [RBytes []] else Inl (External ''rlp: expected list'')),
     rlpDecodeAccount = (\<lambda>b. if b = [3] then Inr demo_account else Inl (External ''rlp: account'')),
     DeriveFields = (\<lambda>rs h n ts. Inr rs),
     FromBlockAndReceipts = (\<lambda>b rs. Inr (demo_node 0, [],
        map (\<lambda>_. demo_node 1) (blk_Transactions b), map (\<lambda>_. demo_node 2) (blk_Transactions b),
        map (\<lambda>_. demo_node 3) rs, map (\<lambda>_. demo_node 4) rs)),
     CalcEthBlockReward = (\<lambda>h us ts rs. 2),
     CalcUncleMinerReward = (\<lambda>n u. 1),
     MakeSigner = (\<lambda>n. 0),
     Sender = (\<lambda>s t. Inr (replicate 19 0 @ [4])),
     Keccak256Hash = (\<lambda>b. 3 # b),
     multihashSum = (\<lambda>t b. 2 # b),
     hashString = map demo_char,
     BytesToHash = (\<lambda>b. b),
     addrString = map demo_char,
     HexToAddress = map demo_byte,
     HandleZeroAddrPointer = (\<lambda>a. case a of None \<Rightarrow> [] | Some x \<Rightarrow> map demo_char x),
     bigString = (\<lambda>n. if n = 7 then ''7'' else if n = 2 then ''2'' else ''n''),
     cidString = (\<lambda>c. case c of CidV1 k h \<Rightarrow> CHR ''c'' # map demo_char h),
     MultihashKeyFromCID = (\<lambda>c. case c of CidV1 k h \<Rightarrow> CHR ''k'' # map demo_char h),
     MultihashKeyFromCIDString = (\<lambda>s. CHR ''k'' # tl s),
     ResolveFromNodeType = (\<lambda>t. if t = ''Leaf'' then 2 else 0),
     store_fault = (\<lambda>n. None),
     begin_fault = None,
     commit_fault = None,
     rangeOrder = (\<lambda>i ks. ks)\<rparr>"

definition demo_payload :: Payload where
  "demo_payload = \<lparr>BlockRlp = [1], ReceiptsRlp = [2], StateObjectRlp = [3], TotalDifficulty = 7\<rparr>"

definition empty_tables :: tables where
  "empty_tables = \<lparr>blocks = [], header_cids = [], uncle_cids = [], transaction_cids = [],
     receipt_cids = [], state_cids = [], state_accounts = [], storage_cids = []\<rparr>"

definition empty_db :: db where
  "empty_db = \<lparr>committed = empty_tables, events = []\<rparr>"

definition empty_tx :: txstate where
  "empty_tx = \<lparr>tabs = empty_tables, opcount = 0\<rparr>"

definition demo_args :: processArgs where
  "demo_args = \<lparr>headerID = 1, blockNumber = 7, receipts = [demo_receipt], txs = [demo_trx],
     rctNodes = [demo_node 3], rctTrieNodes = [demo_node 4], txNodes = [demo_node 1],
     txTrieNodes = [demo_node 2]\<rparr>"

text \<open>
  Variations of the environment: a receipt whose only log has five topics; a codec
  that hands back two transaction trie nodes for one transaction; a commit that
  fails; a state diff whose leaf decodes to a list of one element; a runtime that
  walks maps in the reverse order.
\<close>

definition five_topics_receipt :: receipt where
  "five_topics_receipt = \<lparr>rct_ContractAddress = zeroAddress,
     rct_Logs = [\<lparr>log_Address = replicate 19 0 @ [2], log_Topics = [[0], [1], [2], [3], [4]]\<rparr>]\<rparr>"

definition five_topics_env :: env where
  "five_topics_env = demo_env\<lparr>rlpDecodeReceipts := (\<lambda>b. Inr [five_topics_receipt])\<rparr>"


definition shape_env :: env where
  "shape_env = demo_env\<lparr>FromBlockAndReceipts := (\<lambda>b rs. Inr (demo_node 0, [],
     [demo_node 1], [demo_node 2, demo_node 2], [demo_node 3], [demo_node 4]))\<rparr>"

definition commit_fail_env :: env where
  "commit_fail_env = demo_env\<lparr>commit_fault := Some (External ''commit failed'')\<rparr>"

definition bad_leaf_env :: env where
  "bad_leaf_env = demo_env\<lparr>rlpDecodeStateObject :=
     (\<lambda>b. Inr \<lparr>Nodes = [demo_leaf\<lparr>stn_NodeValue := [2]\<rparr>]\<rparr>)\<rparr>"

definition reverse_order_env :: env where
  "reverse_order_env = demo_env\<lparr>rangeOrder := (\<lambda>i ks. rev ks)\<rparr>"

section \<open>Reading the result of a sequence of statements\<close>

lemma andThen_Ok:
  "andThen m f tx = (Ok b, tx'') \<longleftrightarrow> (\<exists>a tx'. m tx = (Ok a, tx') \<and> f a tx' = (Ok b, tx''))"
  by (auto simp: andThen_def split: prod.splits res.splits)

lemma yield_eq: "yield r tx = (r', tx') \<longleftrightarrow> r = r' \<and> tx = tx'"
  by (auto simp: yield_def)

lemma storeOp_Ok:
  "storeOp E f tx = (Ok a, tx') \<longleftrightarrow>
     store_fault E (opcount tx) = None \<and> a = fst (f (tabs tx)) \<and>
     tx' = \<lparr>tabs = snd (f (tabs tx)), opcount = Suc (opcount tx)\<rparr>"
  by (auto simp: storeOp_def split: option.splits fault.splits)

lemma at_index_Ok: "at_index xs i = Ok x \<longleftrightarrow> i < length xs \<and> x = xs ! i"
  by (auto simp: at_index_def)

lemma from_call_Ok: "from_call r = Ok a \<longleftrightarrow> r = Inr a"
  by (auto simp: from_call_def split: sum.splits)

lemma topicLoop_ok_iff:
  "(\<exists>ts'. topicLoop E ts i tps = Ok ts') \<longleftrightarrow> (tps = [] \<or> i + length tps \<le> length ts)"
  by (induction tps arbitrary: ts i) auto

lemma topicLoop_panic:
  "tps \<noteq> [] \<Longrightarrow> length ts < i + length tps \<Longrightarrow> i \<le> length ts \<Longrightarrow>
     topicLoop E ts i tps = Panic (IndexOutOfRange (length ts) (length ts))"
proof (induction tps arbitrary: ts i)
  case Nil
  then show ?case by simp
next
  case (Cons t tps)
  show ?case
  proof (cases "i < length ts")
    case False
    with Cons.prems show ?thesis by simp
  next
    case True
    with Cons.prems have "tps \<noteq> []" by auto
    with Cons.prems True Cons.IH [of "ts[i := ts ! i @ [hashString E t]]" "Suc i"]
    show ?thesis by simp
  qed
qed

lemma topicLoop_result:
  "topicLoop E ts i tps = Ok ts' \<Longrightarrow>
     length ts' = length ts \<and>
     (\<forall>k < length ts. ts' ! k =
        ts ! k @ (if i \<le> k \<and> k < i + length tps then [hashString E (tps ! (k - i))] else []))"
proof (induction tps arbitrary: ts i)
  case Nil
  then show ?case by simp
next
  case (Cons t tps)
  from Cons.prems have lt: "i < length ts"
    by (simp split: if_splits)
  with Cons.prems have rec: "topicLoop E (ts[i := ts ! i @ [hashString E t]]) (Suc i) tps = Ok ts'"
    by simp
  from Cons.IH [OF rec] have len: "length ts' = length ts"
    and elems: "\<And>k. k < length ts \<Longrightarrow> ts' ! k = (ts[i := ts ! i @ [hashString E t]]) ! k @
        (if Suc i \<le> k \<and> k < Suc i + length tps then [hashString E (tps ! (k - Suc i))] else [])"
    by simp_all
  show ?case
  proof (intro conjI allI impI)
    show "length ts' = length ts" by (rule len)
  next
    fix k assume k: "k < length ts"
    show "ts' ! k = ts ! k @
        (if i \<le> k \<and> k < i + length (t # tps) then [hashString E ((t # tps) ! (k - i))] else [])"
    proof (cases "k = i")
      case True
      with elems [OF k] lt show ?thesis by simp
    next
      case False
      with elems [OF k] show ?thesis
        by (auto simp: nth_Cons' Suc_diff_Suc less_Suc_eq_le)
    qed
  qed
qed

lemma topicLoop_cases:
  "(length tps \<le> length ts \<and> (\<exists>ts'. topicLoop E ts 0 tps = Ok ts')) \<or>
   (length ts < length tps \<and> topicLoop E ts 0 tps = Panic (IndexOutOfRange (length ts) (length ts)))"
proof (cases "length tps \<le> length ts")
  case True
  then show ?thesis using topicLoop_ok_iff [of E ts 0 tps] by simp
next
  case False
  then have "tps \<noteq> []" by auto
  with False show ?thesis using topicLoop_panic [of tps ts 0 E] by simp
qed

lemma logLoop_result:
  "logLoop E ts mc logs = Ok (ts', mc') \<Longrightarrow>
     length ts' = length ts \<and>
     (\<forall>l \<in> set logs. length (log_Topics l) \<le> length ts) \<and>
     (\<forall>k < length ts. ts' ! k = ts ! k @
        map (\<lambda>l. hashString E (log_Topics l ! k)) (filter (\<lambda>l. k < length (log_Topics l)) logs))"
proof (induction logs arbitrary: ts mc)
  case Nil
  then show ?case by simp
next
  case (Cons l logs)
  from Cons.prems obtain ts1 where
    t1: "topicLoop E ts 0 (log_Topics l) = Ok ts1" and
    rec: "logLoop E ts1 (AList.update (addrString E (log_Address l)) True mc) logs = Ok (ts', mc')"
    by (auto split: res.splits)
  from topicLoop_result [OF t1] have len1: "length ts1 = length ts"
    and el1: "\<And>k. k < length ts \<Longrightarrow> ts1 ! k = ts ! k @
        (if k < length (log_Topics l) then [hashString E (log_Topics l ! k)] else [])"
    by simp_all
  from t1 have le: "length (log_Topics l) \<le> length ts"
    using topicLoop_cases [of "log_Topics l" ts E] by auto
  from Cons.IH [OF rec] len1 have len: "length ts' = length ts"
    and all: "\<forall>l \<in> set logs. length (log_Topics l) \<le> length ts"
    and el: "\<And>k. k < length ts \<Longrightarrow> ts' ! k = ts1 ! k @
        map (\<lambda>l. hashString E (log_Topics l ! k)) (filter (\<lambda>l. k < length (log_Topics l)) logs)"
    by simp_all
  show ?case
    using len all le el el1 by simp
qed

lemma logLoop_keys:
  "logLoop E ts mc logs = Ok (ts', mc') \<Longrightarrow>
     set (map fst mc') = set (map fst mc) \<union> (\<lambda>l. addrString E (log_Address l)) ` set logs \<and>
     (distinct (map fst mc) \<longrightarrow> distinct (map fst mc'))"
proof (induction logs arbitrary: ts mc)
  case Nil
  then show ?case by simp
next
  case (Cons l logs)
  from Cons.prems obtain ts1 where
    rec: "logLoop E ts1 (AList.update (addrString E (log_Address l)) True mc) logs = Ok (ts', mc')"
    by (auto split: res.splits)
  from Cons.IH [OF rec] show ?case
    by (auto simp: dom_update distinct_update)
qed


section \<open>One receipt and its transaction\<close>

lemmas ok_simps = andThen_Ok yield_eq storeOp_Ok at_index_Ok from_call_Ok

lemmas store_defs = PublishIPLD_def PublishRaw_def indexHeaderCID_def indexUncleCID_def
  indexTransactionCID_def indexReceiptCID_def indexStateCID_def indexStateAccount_def
  indexStorageCID_def

lemma processReceiptAndTx_Ok:
  assumes "processReceiptAndTx E args signer i rct tx = (Ok (), tx')"
  shows "\<exists>fromAddr ts mc.
    i < length (txs args) \<and> i < length (txTrieNodes args) \<and> i < length (rctTrieNodes args) \<and>
    i < length (txNodes args) \<and> i < length (rctNodes args) \<and>
    Sender E signer (txs args ! i) = Inr fromAddr \<and>
    logLoop E (replicate 4 []) [] (rct_Logs rct) = Ok (ts, mc) \<and>
    receipt_cids (tabs tx') = receipt_cids (tabs tx) @
      [(int (length (receipt_cids (tabs tx))) + 1, int (length (transaction_cids (tabs tx))) + 1,
        \<lparr>Topic0s = ts ! 0, Topic1s = ts ! 1, Topic2s = ts ! 2, Topic3s = ts ! 3,
         Contract = HandleZeroAddr E (rct_ContractAddress rct),
         ContractHash = (if HandleZeroAddr E (rct_ContractAddress rct) \<noteq> []
           then hashString E (Keccak256Hash E (HexToAddress E (HandleZeroAddr E (rct_ContractAddress rct))))
           else []),
         LogContracts = rangeOrder E i (map fst mc),
         rm_CID = cidString E (Cid (rctNodes args ! i)),
         rm_MhKey = MultihashKeyFromCID E (Cid (rctNodes args ! i))\<rparr>)] \<and>
    transaction_cids (tabs tx') = transaction_cids (tabs tx) @
      [(int (length (transaction_cids (tabs tx))) + 1, headerID args,
        \<lparr>tm_Dst = HandleZeroAddrPointer E (trx_To (txs args ! i)),
         tm_Src = HandleZeroAddr E fromAddr,
         tm_TxHash = hashString E (trx_Hash (txs args ! i)),
         tm_Index = int i,
         tm_Data = trx_Data (txs args ! i),
         tm_Deployment = (HandleZeroAddr E (rct_ContractAddress rct) \<noteq> []),
         tm_CID = cidString E (Cid (txNodes args ! i)),
         tm_MhKey = MultihashKeyFromCID E (Cid (txNodes args ! i))\<rparr>)] \<and>
    blocks (tabs tx') = blocks (tabs tx) @
      [(MultihashKeyFromCID E (Cid (txTrieNodes args ! i)), RawData (txTrieNodes args ! i)),
       (MultihashKeyFromCID E (Cid (rctTrieNodes args ! i)), RawData (rctTrieNodes args ! i)),
       (MultihashKeyFromCID E (Cid (txNodes args ! i)), RawData (txNodes args ! i)),
       (MultihashKeyFromCID E (Cid (rctNodes args ! i)), RawData (rctNodes args ! i))] @
      (if HandleZeroAddr E (rct_ContractAddress rct) \<noteq> []
       then [(MultihashKeyFromCID E (CidV1 MEthStorageTrie (multihashSum E KECCAK_256 (trx_Data (txs args ! i)))),
              trx_Data (txs args ! i))]
       else []) \<and>
    header_cids (tabs tx') = header_cids (tabs tx) \<and>
    uncle_cids (tabs tx') = uncle_cids (tabs tx) \<and>
    state_cids (tabs tx') = state_cids (tabs tx) \<and>
    state_accounts (tabs tx') = state_accounts (tabs tx) \<and>
    storage_cids (tabs tx') = storage_cids (tabs tx)"
  using assms unfolding processReceiptAndTx_def rangeKeys_def store_defs
  by (auto simp: ok_simps Let_def split: prod.splits if_splits)


lemmas demo_defs = demo_env_def demo_args_def demo_receipt_def demo_logs_def demo_trx_def
  demo_node_def demo_contract_def empty_tx_def empty_tables_def demo_char_def demo_byte_def
  demo_table_def

section \<open>The loop over the receipts\<close>

lemma receiptsLoop_Ok:
  "receiptsLoop E args signer i rcts tx = (Ok (), tx') \<Longrightarrow>
   \<exists>newT newR.
     transaction_cids (tabs tx') = transaction_cids (tabs tx) @ newT \<and>
     receipt_cids (tabs tx') = receipt_cids (tabs tx) @ newR \<and>
     length newT = length rcts \<and> length newR = length rcts \<and>
     map (\<lambda>r. fst (snd r)) newR = map fst newT \<and>
     map (\<lambda>r. tm_Index (snd (snd r))) newT = map int [i..<i + length rcts] \<and>
     map (\<lambda>r. tm_Data (snd (snd r))) newT = map (\<lambda>k. trx_Data (txs args ! k)) [i..<i + length rcts] \<and>
     map (\<lambda>r. tm_Deployment (snd (snd r))) newT =
       map (\<lambda>rct. HandleZeroAddr E (rct_ContractAddress rct) \<noteq> []) rcts \<and>
     map (\<lambda>r. Contract (snd (snd r))) newR =
       map (\<lambda>rct. HandleZeroAddr E (rct_ContractAddress rct)) rcts \<and>
     map (\<lambda>r. ContractHash (snd (snd r))) newR =
       map (\<lambda>rct. if HandleZeroAddr E (rct_ContractAddress rct) \<noteq> []
          then hashString E (Keccak256Hash E (HexToAddress E (HandleZeroAddr E (rct_ContractAddress rct))))
          else []) rcts \<and>
     map (\<lambda>r. Topic0s (snd (snd r))) newR =
       map (\<lambda>rct. map (\<lambda>l. hashString E (log_Topics l ! 0))
         (filter (\<lambda>l. 0 < length (log_Topics l)) (rct_Logs rct))) rcts \<and>
     map (\<lambda>r. Topic1s (snd (snd r))) newR =
       map (\<lambda>rct. map (\<lambda>l. hashString E (log_Topics l ! 1))
         (filter (\<lambda>l. 1 < length (log_Topics l)) (rct_Logs rct))) rcts \<and>
     map (\<lambda>r. Topic2s (snd (snd r))) newR =
       map (\<lambda>rct. map (\<lambda>l. hashString E (log_Topics l ! 2))
         (filter (\<lambda>l. 2 < length (log_Topics l)) (rct_Logs rct))) rcts \<and>
     map (\<lambda>r. Topic3s (snd (snd r))) newR =
       map (\<lambda>rct. map (\<lambda>l. hashString E (log_Topics l ! 3))
         (filter (\<lambda>l. 3 < length (log_Topics l)) (rct_Logs rct))) rcts \<and>
     (\<forall>rct \<in> set rcts. \<forall>l \<in> set (rct_Logs rct). length (log_Topics l) \<le> 4) \<and>
     length rcts \<le> length (txs args) - i \<and>
     blocks (tabs tx') = blocks (tabs tx) @ concat (map (\<lambda>(k, rct).
       [(MultihashKeyFromCID E (Cid (txTrieNodes args ! k)), RawData (txTrieNodes args ! k)),
        (MultihashKeyFromCID E (Cid (rctTrieNodes args ! k)), RawData (rctTrieNodes args ! k)),
        (MultihashKeyFromCID E (Cid (txNodes args ! k)), RawData (txNodes args ! k)),
        (MultihashKeyFromCID E (Cid (rctNodes args ! k)), RawData (rctNodes args ! k))] @
       (if HandleZeroAddr E (rct_ContractAddress rct) \<noteq> []
        then [(MultihashKeyFromCID E
                 (CidV1 MEthStorageTrie (multihashSum E KECCAK_256 (trx_Data (txs args ! k)))),
               trx_Data (txs args ! k))]
        else [])) (enumerate i rcts))"
proof (induction rcts arbitrary: i tx)
  case Nil
  then show ?case by (simp add: yield_eq)
next
  case (Cons rct rcts)
  from Cons.prems obtain tx1 where
    b: "processReceiptAndTx E args signer i rct tx = (Ok (), tx1)" and
    rest: "receiptsLoop E args signer (Suc i) rcts tx1 = (Ok (), tx')"
    by (auto simp: andThen_Ok)
  from processReceiptAndTx_Ok [OF b] obtain fromAddr ts mc where
    idx: "i < length (txs args)" and
    ll: "logLoop E (replicate 4 []) [] (rct_Logs rct) = Ok (ts, mc)" and
    r1: "receipt_cids (tabs tx1) = receipt_cids (tabs tx) @
      [(int (length (receipt_cids (tabs tx))) + 1, int (length (transaction_cids (tabs tx))) + 1,
        \<lparr>Topic0s = ts ! 0, Topic1s = ts ! 1, Topic2s = ts ! 2, Topic3s = ts ! 3,
         Contract = HandleZeroAddr E (rct_ContractAddress rct),
         ContractHash = (if HandleZeroAddr E (rct_ContractAddress rct) \<noteq> []
           then hashString E (Keccak256Hash E (HexToAddress E (HandleZeroAddr E (rct_ContractAddress rct))))
           else []),
         LogContracts = rangeOrder E i (map fst mc),
         rm_CID = cidString E (Cid (rctNodes args ! i)),
         rm_MhKey = MultihashKeyFromCID E (Cid (rctNodes args ! i))\<rparr>)]" and
    t1: "transaction_cids (tabs tx1) = transaction_cids (tabs tx) @
      [(int (length (transaction_cids (tabs tx))) + 1, headerID args,
        \<lparr>tm_Dst = HandleZeroAddrPointer E (trx_To (txs args ! i)),
         tm_Src = HandleZeroAddr E fromAddr,
         tm_TxHash = hashString E (trx_Hash (txs args ! i)),
         tm_Index = int i,
         tm_Data = trx_Data (txs args ! i),
         tm_Deployment = (HandleZeroAddr E (rct_ContractAddress rct) \<noteq> []),
         tm_CID = cidString E (Cid (txNodes args ! i)),
         tm_MhKey = MultihashKeyFromCID E (Cid (txNodes args ! i))\<rparr>)]" and
    b1: "blocks (tabs tx1) = blocks (tabs tx) @
      [(MultihashKeyFromCID E (Cid (txTrieNodes args ! i)), RawData (txTrieNodes args ! i)),
       (MultihashKeyFromCID E (Cid (rctTrieNodes args ! i)), RawData (rctTrieNodes args ! i)),
       (MultihashKeyFromCID E (Cid (txNodes args ! i)), RawData (txNodes args ! i)),
       (MultihashKeyFromCID E (Cid (rctNodes args ! i)), RawData (rctNodes args ! i))] @
      (if HandleZeroAddr E (rct_ContractAddress rct) \<noteq> []
       then [(MultihashKeyFromCID E (CidV1 MEthStorageTrie (multihashSum E KECCAK_256 (trx_Data (txs args ! i)))),
              trx_Data (txs args ! i))]
       else [])"
    by blast
  from logLoop_result [OF ll] have
    le4: "\<forall>l \<in> set (rct_Logs rct). length (log_Topics l) \<le> 4" and
    el: "\<And>k. k < 4 \<Longrightarrow> ts ! k =
        map (\<lambda>l. hashString E (log_Topics l ! k)) (filter (\<lambda>l. k < length (log_Topics l)) (rct_Logs rct))"
    by simp_all
  from Cons.IH [OF rest] obtain newT newR where
    ih: "transaction_cids (tabs tx') = transaction_cids (tabs tx1) @ newT"
     "receipt_cids (tabs tx') = receipt_cids (tabs tx1) @ newR"
     "length newT = length rcts" "length newR = length rcts"
     "map (\<lambda>r. fst (snd r)) newR = map fst newT"
     "map (\<lambda>r. tm_Index (snd (snd r))) newT = map int [Suc i..<Suc i + length rcts]"
     "map (\<lambda>r. tm_Data (snd (snd r))) newT = map (\<lambda>k. trx_Data (txs args ! k)) [Suc i..<Suc i + length rcts]"
     "map (\<lambda>r. tm_Deployment (snd (snd r))) newT =
       map (\<lambda>rct. HandleZeroAddr E (rct_ContractAddress rct) \<noteq> []) rcts"
     "map (\<lambda>r. Contract (snd (snd r))) newR =
       map (\<lambda>rct. HandleZeroAddr E (rct_ContractAddress rct)) rcts"
     "map (\<lambda>r. ContractHash (snd (snd r))) newR =
       map (\<lambda>rct. if HandleZeroAddr E (rct_ContractAddress rct) \<noteq> []
          then hashString E (Keccak256Hash E (HexToAddress E (HandleZeroAddr E (rct_ContractAddress rct))))
          else []) rcts"
     "map (\<lambda>r. Topic0s (snd (snd r))) newR =
       map (\<lambda>rct. map (\<lambda>l. hashString E (log_Topics l ! 0))
         (filter (\<lambda>l. 0 < length (log_Topics l)) (rct_Logs rct))) rcts"
     "map (\<lambda>r. Topic1s (snd (snd r))) newR =
       map (\<lambda>rct. map (\<lambda>l. hashString E (log_Topics l ! 1))
         (filter (\<lambda>l. 1 < length (log_Topics l)) (rct_Logs rct))) rcts"
     "map (\<lambda>r. Topic2s (snd (snd r))) newR =
       map (\<lambda>rct. map (\<lambda>l. hashString E (log_Topics l ! 2))
         (filter (\<lambda>l. 2 < length (log_Topics l)) (rct_Logs rct))) rcts"
     "map (\<lambda>r. Topic3s (snd (snd r))) newR =
       map (\<lambda>rct. map (\<lambda>l. hashString E (log_Topics l ! 3))
         (filter (\<lambda>l. 3 < length (log_Topics l)) (rct_Logs rct))) rcts"
     "\<forall>rct \<in> set rcts. \<forall>l \<in> set (rct_Logs rct). length (log_Topics l) \<le> 4"
     "length rcts \<le> length (txs args) - Suc i"
     "blocks (tabs tx') = blocks (tabs tx1) @ concat (map (\<lambda>(k, rct).
       [(MultihashKeyFromCID E (Cid (txTrieNodes args ! k)), RawData (txTrieNodes args ! k)),
        (MultihashKeyFromCID E (Cid (rctTrieNodes args ! k)), RawData (rctTrieNodes args ! k)),
        (MultihashKeyFromCID E (Cid (txNodes args ! k)), RawData (txNodes args ! k)),
        (MultihashKeyFromCID E (Cid (rctNodes args ! k)), RawData (rctNodes args ! k))] @
       (if HandleZeroAddr E (rct_ContractAddress rct) \<noteq> []
        then [(MultihashKeyFromCID E
                 (CidV1 MEthStorageTrie (multihashSum E KECCAK_256 (trx_Data (txs args ! k)))),
               trx_Data (txs args ! k))]
        else [])) (enumerate (Suc i) rcts))"
    by blast
  have "i < i + length (rct # rcts)" by simp
  from upt_conv_Cons [OF this]
  have upt: "[i..<i + length (rct # rcts)] = i # [Suc i..<Suc i + length rcts]"
    by (simp del: upt_Suc)
  let ?T = "(int (length (transaction_cids (tabs tx))) + 1, headerID args,
        \<lparr>tm_Dst = HandleZeroAddrPointer E (trx_To (txs args ! i)),
         tm_Src = HandleZeroAddr E fromAddr,
         tm_TxHash = hashString E (trx_Hash (txs args ! i)),
         tm_Index = int i,
         tm_Data = trx_Data (txs args ! i),
         tm_Deployment = (HandleZeroAddr E (rct_ContractAddress rct) \<noteq> []),
         tm_CID = cidString E (Cid (txNodes args ! i)),
         tm_MhKey = MultihashKeyFromCID E (Cid (txNodes args ! i))\<rparr>)"
  let ?R = "(int (length (receipt_cids (tabs tx))) + 1, int (length (transaction_cids (tabs tx))) + 1,
        \<lparr>Topic0s = ts ! 0, Topic1s = ts ! 1, Topic2s = ts ! 2, Topic3s = ts ! 3,
         Contract = HandleZeroAddr E (rct_ContractAddress rct),
         ContractHash = (if HandleZeroAddr E (rct_ContractAddress rct) \<noteq> []
           then hashString E (Keccak256Hash E (HexToAddress E (HandleZeroAddr E (rct_ContractAddress rct))))
           else []),
         LogContracts = rangeOrder E i (map fst mc),
         rm_CID = cidString E (Cid (rctNodes args ! i)),
         rm_MhKey = MultihashKeyFromCID E (Cid (rctNodes args ! i))\<rparr>)"
  show ?case
    apply (rule exI [of _ "?T # newT"])
    apply (rule exI [of _ "?R # newR"])
    unfolding upt
    using ih le4 el [of 0] el [of 1] el [of 2] el [of 3] idx
    by (simp add: r1 t1 b1 del: upt_Suc)
qed

section \<open>State nodes and their accounts\<close>

lemma assertBytes_Ok: "assertBytes v = Ok b \<longleftrightarrow> v = RBytes b"
  by (auto simp: assertBytes_def split: rlp_value.splits)

lemma storageLoop_accounts:
  "storageLoop E stateID sns tx = (r, tx') \<Longrightarrow>
     state_accounts (tabs tx') = state_accounts (tabs tx) \<and>
     state_cids (tabs tx') = state_cids (tabs tx)"
proof (induction sns arbitrary: tx)
  case Nil
  then show ?case by (simp add: yield_def)
next
  case (Cons sn sns)
  then show ?case
    unfolding storageLoop.simps
    by (auto simp: andThen_def PublishRaw_def indexStorageCID_def storeOp_def
          split: prod.splits res.splits option.splits fault.splits)
qed

lemma indexLeafAccount_Ok:
  assumes "indexLeafAccount E stateNode stateID tx = (Ok (), tx')"
  shows "\<exists>x b acct.
     rlpDecodeList E (stn_NodeValue stateNode) = Inr [x, RBytes b] \<and>
     rlpDecodeAccount E b = Inr acct \<and>
     state_accounts (tabs tx') = state_accounts (tabs tx) @
       [(int (length (state_accounts (tabs tx))) + 1, stateID,
         \<lparr>sam_Balance = bigString E (acc_Balance acct), sam_Nonce = acc_Nonce acct,
          sam_CodeHash = acc_CodeHash acct, sam_StorageRoot = hashString E (acc_Root acct)\<rparr>)] \<and>
     state_cids (tabs tx') = state_cids (tabs tx)"
proof -
  from assms obtain i b acct where
    d: "rlpDecodeList E (stn_NodeValue stateNode) = Inr i" and
    len: "length i = 2" and
    b: "i ! 1 = RBytes b" and
    a: "rlpDecodeAccount E b = Inr acct" and
    ix: "indexStateAccount E \<lparr>sam_Balance = bigString E (acc_Balance acct), sam_Nonce = acc_Nonce acct,
          sam_CodeHash = acc_CodeHash acct, sam_StorageRoot = hashString E (acc_Root acct)\<rparr>
          stateID tx = (Ok (), tx')"
    unfolding indexLeafAccount_def
    by (auto simp: andThen_Ok yield_eq from_call_Ok assertBytes_Ok split: if_splits)
  from len obtain x y where i: "i = [x, y]"
    by (cases i; cases "tl i") auto
  with b have "i = [x, RBytes b]" by simp
  with d a ix show ?thesis
    by (auto simp: indexStateAccount_def storeOp_Ok)
qed

lemma indexLeafAccount_fails:
  "rlpDecodeList E (stn_NodeValue stateNode) = Inl e \<Longrightarrow>
     indexLeafAccount E stateNode stateID tx = (Fail e, tx)"
  "rlpDecodeList E (stn_NodeValue stateNode) = Inr i \<Longrightarrow> length i \<noteq> 2 \<Longrightarrow>
     indexLeafAccount E stateNode stateID tx = (Fail LeafNotTwoElements, tx)"
  "rlpDecodeList E (stn_NodeValue stateNode) = Inr [x, RBytes b] \<Longrightarrow> rlpDecodeAccount E b = Inl e \<Longrightarrow>
     indexLeafAccount E stateNode stateID tx = (Fail e, tx)"
  unfolding indexLeafAccount_def
  by (simp_all add: andThen_def yield_def from_call_def assertBytes_def)

lemma indexLeafAccount_other:
  "indexLeafAccount E stateNode stateID tx = (r, tx') \<Longrightarrow> r \<noteq> Ok () \<Longrightarrow>
     state_accounts (tabs tx') = state_accounts (tabs tx) \<and> state_cids (tabs tx') = state_cids (tabs tx)"
  unfolding indexLeafAccount_def
  by (auto simp: andThen_def yield_def from_call_def assertBytes_def indexStateAccount_def storeOp_def
        split: sum.splits if_splits rlp_value.splits prod.splits res.splits option.splits fault.splits)

lemma processStateNode_Ok:
  assumes ok: "processStateNode E hID n tx = (Ok (), tx')"
  shows "\<exists>m. state_cids (tabs tx') =
        state_cids (tabs tx) @ [(int (length (state_cids (tabs tx))) + 1, hID, m)] \<and>
     (if stn_NodeType n = Leaf
      then \<exists>x b acct.
        rlpDecodeList E (stn_NodeValue n) = Inr [x, RBytes b] \<and>
        rlpDecodeAccount E b = Inr acct \<and>
        state_accounts (tabs tx') = state_accounts (tabs tx) @
          [(int (length (state_accounts (tabs tx))) + 1, int (length (state_cids (tabs tx))) + 1,
            \<lparr>sam_Balance = bigString E (acc_Balance acct), sam_Nonce = acc_Nonce acct,
             sam_CodeHash = acc_CodeHash acct, sam_StorageRoot = hashString E (acc_Root acct)\<rparr>)]
      else state_accounts (tabs tx') = state_accounts (tabs tx))"
proof -
  from ok obtain cidStr tx1 stateID tx2 tx3 where
    p: "PublishRaw E MEthStateTrie KECCAK_256 (stn_NodeValue n) tx = (Ok cidStr, tx1)" and
    ix: "indexStateCID E \<lparr>snm_Path = stn_Path n,
           snm_StateKey = hashString E (BytesToHash E (stn_LeafKey n)),
           snm_CID = cidStr, snm_MhKey = MultihashKeyFromCIDString E cidStr,
           snm_NodeType = ResolveFromNodeType E (stn_NodeType n)\<rparr> hID tx1 = (Ok stateID, tx2)" and
    lf: "(if stn_NodeType n = Leaf then indexLeafAccount E n stateID else yield (Ok ())) tx2 = (Ok (), tx3)" and
    st: "storageLoop E stateID (stn_StorageNodes n) tx3 = (Ok (), tx')"
    unfolding processStateNode_def by (auto simp: andThen_Ok)
  from p have t1: "state_cids (tabs tx1) = state_cids (tabs tx)"
      "state_accounts (tabs tx1) = state_accounts (tabs tx)"
    by (auto simp: PublishRaw_def storeOp_Ok)
  from ix t1 have t2: "stateID = int (length (state_cids (tabs tx))) + 1"
      "state_cids (tabs tx2) = state_cids (tabs tx) @ [(int (length (state_cids (tabs tx))) + 1, hID,
          \<lparr>snm_Path = stn_Path n,
           snm_StateKey = hashString E (BytesToHash E (stn_LeafKey n)),
           snm_CID = cidStr, snm_MhKey = MultihashKeyFromCIDString E cidStr,
           snm_NodeType = ResolveFromNodeType E (stn_NodeType n)\<rparr>)]"
      "state_accounts (tabs tx2) = state_accounts (tabs tx)"
    by (auto simp: indexStateCID_def storeOp_Ok)
  from storageLoop_accounts [OF st] have t4: "state_accounts (tabs tx') = state_accounts (tabs tx3)"
      "state_cids (tabs tx') = state_cids (tabs tx3)"
    by simp_all
  show ?thesis
  proof (cases "stn_NodeType n = Leaf")
    case True
    with lf have "indexLeafAccount E n stateID tx2 = (Ok (), tx3)" by simp
    from indexLeafAccount_Ok [OF this] True t2 t4 show ?thesis by auto
  next
    case False
    with lf have "tx3 = tx2" by (simp add: yield_eq)
    with False t2 t4 show ?thesis by auto
  qed
qed

lemma processStateNode_not_leaf:
  assumes "processStateNode E hID n tx = (r, tx')" and "stn_NodeType n \<noteq> Leaf"
  shows "state_accounts (tabs tx') = state_accounts (tabs tx)"
  using assms unfolding processStateNode_def
  by (auto simp: andThen_def yield_def PublishRaw_def indexStateCID_def storeOp_def
        dest: storageLoop_accounts
        split: prod.splits res.splits option.splits fault.splits)

lemma processStateNode_leaf_fails:
  assumes leaf: "stn_NodeType n = Leaf"
    and nofault: "store_fault E (opcount tx) = None" "store_fault E (Suc (opcount tx)) = None"
    and bad: "rlpDecodeList E (stn_NodeValue n) = Inl e \<or>
      (\<exists>i. rlpDecodeList E (stn_NodeValue n) = Inr i \<and> length i \<noteq> 2 \<and> e = LeafNotTwoElements) \<or>
      (\<exists>x b. rlpDecodeList E (stn_NodeValue n) = Inr [x, RBytes b] \<and> rlpDecodeAccount E b = Inl e)"
  shows "fst (processStateNode E hID n tx) = Fail e \<and>
     state_accounts (tabs (snd (processStateNode E hID n tx))) = state_accounts (tabs tx)"
  using bad
proof (elim disjE exE conjE)
  assume "rlpDecodeList E (stn_NodeValue n) = Inl e"
  from indexLeafAccount_fails(1) [OF this] leaf nofault show ?thesis
    unfolding processStateNode_def
    by (simp add: andThen_def PublishRaw_def indexStateCID_def storeOp_def)
next
  fix i assume "rlpDecodeList E (stn_NodeValue n) = Inr i" "length i \<noteq> 2" "e = LeafNotTwoElements"
  with indexLeafAccount_fails(2) [of E n i] leaf nofault show ?thesis
    unfolding processStateNode_def
    by (simp add: andThen_def PublishRaw_def indexStateCID_def storeOp_def)
next
  fix x b assume "rlpDecodeList E (stn_NodeValue n) = Inr [x, RBytes b]" "rlpDecodeAccount E b = Inl e"
  with indexLeafAccount_fails(3) [of E n x b e] leaf nofault show ?thesis
    unfolding processStateNode_def
    by (simp add: andThen_def PublishRaw_def indexStateCID_def storeOp_def)
qed

lemma stateLoop_Ok:
  "stateLoop E hID nodes tx = (Ok (), tx') \<Longrightarrow>
     map fst (state_cids (tabs tx')) = map fst (state_cids (tabs tx)) @
       map (\<lambda>(k, n). int k + 1) (enumerate (length (state_cids (tabs tx))) nodes) \<and>
     map (\<lambda>r. fst (snd r)) (state_accounts (tabs tx')) = map (\<lambda>r. fst (snd r)) (state_accounts (tabs tx)) @
       map (\<lambda>(k, n). int k + 1)
         (filter (\<lambda>(k, n). stn_NodeType n = Leaf) (enumerate (length (state_cids (tabs tx))) nodes))"
proof (induction nodes arbitrary: tx)
  case Nil
  then show ?case by (simp add: yield_eq)
next
  case (Cons n nodes)
  from Cons.prems obtain tx1 where
    n: "processStateNode E hID n tx = (Ok (), tx1)" and
    rest: "stateLoop E hID nodes tx1 = (Ok (), tx')"
    by (auto simp: andThen_Ok)
  from processStateNode_Ok [OF n] obtain m where
    sc: "state_cids (tabs tx1) = state_cids (tabs tx) @ [(int (length (state_cids (tabs tx))) + 1, hID, m)]"
    and lc: "if stn_NodeType n = Leaf
      then \<exists>x b acct.
        rlpDecodeList E (stn_NodeValue n) = Inr [x, RBytes b] \<and>
        rlpDecodeAccount E b = Inr acct \<and>
        state_accounts (tabs tx1) = state_accounts (tabs tx) @
          [(int (length (state_accounts (tabs tx))) + 1, int (length (state_cids (tabs tx))) + 1,
            \<lparr>sam_Balance = bigString E (acc_Balance acct), sam_Nonce = acc_Nonce acct,
             sam_CodeHash = acc_CodeHash acct, sam_StorageRoot = hashString E (acc_Root acct)\<rparr>)]
      else state_accounts (tabs tx1) = state_accounts (tabs tx)"
    by blast
  have sa: "map (\<lambda>r. fst (snd r)) (state_accounts (tabs tx1)) = map (\<lambda>r. fst (snd r)) (state_accounts (tabs tx)) @
       (if stn_NodeType n = Leaf then [int (length (state_cids (tabs tx))) + 1] else [])"
    using lc by (cases "stn_NodeType n = Leaf") auto
  from sc have len: "length (state_cids (tabs tx1)) = Suc (length (state_cids (tabs tx)))" by simp
  from Cons.IH [OF rest] sa show ?case
    unfolding len by (simp add: sc)
qed

lemma stateLoop_stops_at_failure:
  "stateLoop E hID pre tx = (Ok (), tx1) \<Longrightarrow> fst (processStateNode E hID n tx1) = Fail e \<Longrightarrow>
     fst (stateLoop E hID (pre @ n # rest) tx) = Fail e"
proof (induction pre arbitrary: tx)
  case Nil
  then show ?case
    by (cases "processStateNode E hID n tx1") (auto simp: yield_eq andThen_def)
next
  case (Cons p pre)
  from Cons.prems(1) obtain tx0 where
    p: "processStateNode E hID p tx = (Ok (), tx0)" and
    rest: "stateLoop E hID pre tx0 = (Ok (), tx1)"
    by (auto simp: andThen_Ok)
  from Cons.IH [OF rest Cons.prems(2)] p show ?case
    by (simp add: andThen_def)
qed

text \<open>
  What \<open>processStateAndStorage\<close> does with a state node, as long as the transaction
  is open. For a node that is not a leaf no account row is written. For a leaf whose
  step succeeds, the node value decoded to a list of two elements, the second a byte
  string that decoded to an account, and one account row with the fields of that
  account was appended under the id of the state row just written. For a leaf whose
  value does not decode, decodes to a list of another length, or whose second element
  does not decode to an account, the step returns the error and writes no account
  row. When the whole loop succeeds, the parents of the new account rows are exactly
  the ids of the state rows of the leaf nodes.
\<close>

lemma state_account_only_for_leaf:
  "(processStateNode E hID n tx = (r, tx') \<and> stn_NodeType n \<noteq> Leaf \<longrightarrow>
      state_accounts (tabs tx') = state_accounts (tabs tx)) \<and>
   (processStateNode E hID n tx = (Ok (), tx') \<and> stn_NodeType n = Leaf \<longrightarrow>
      (\<exists>x b acct.
         rlpDecodeList E (stn_NodeValue n) = Inr [x, RBytes b] \<and>
         rlpDecodeAccount E b = Inr acct \<and>
         state_accounts (tabs tx') = state_accounts (tabs tx) @
           [(int (length (state_accounts (tabs tx))) + 1, int (length (state_cids (tabs tx))) + 1,
             \<lparr>sam_Balance = bigString E (acc_Balance acct), sam_Nonce = acc_Nonce acct,
              sam_CodeHash = acc_CodeHash acct, sam_StorageRoot = hashString E (acc_Root acct)\<rparr>)])) \<and>
   (stn_NodeType n = Leaf \<and>
    store_fault E (opcount tx) = None \<and> store_fault E (Suc (opcount tx)) = None \<and>
    (rlpDecodeList E (stn_NodeValue n) = Inl e \<or>
     (\<exists>i. rlpDecodeList E (stn_NodeValue n) = Inr i \<and> length i \<noteq> 2 \<and> e = LeafNotTwoElements) \<or>
     (\<exists>x b. rlpDecodeList E (stn_NodeValue n) = Inr [x, RBytes b] \<and> rlpDecodeAccount E b = Inl e)) \<longrightarrow>
      fst (processStateNode E hID n tx) = Fail e \<and>
      state_accounts (tabs (snd (processStateNode E hID n tx))) = state_accounts (tabs tx)) \<and>
   (processStateAndStorage E hID sd tx = (Ok (), tx') \<longrightarrow>
      map fst (state_cids (tabs tx')) = map fst (state_cids (tabs tx)) @
        map (\<lambda>(k, n). int k + 1) (enumerate (length (state_cids (tabs tx))) (Nodes sd)) \<and>
      map (\<lambda>r. fst (snd r)) (state_accounts (tabs tx')) =
        map (\<lambda>r. fst (snd r)) (state_accounts (tabs tx)) @
        map (\<lambda>(k, n). int k + 1)
          (filter (\<lambda>(k, n). stn_NodeType n = Leaf)
             (enumerate (length (state_cids (tabs tx))) (Nodes sd)))) \<and>
   (stateLoop E hID pre tx = (Ok (), tx1) \<and> fst (processStateNode E hID n tx1) = Fail e \<longrightarrow>
      fst (processStateAndStorage E hID \<lparr>Nodes = pre @ n # rest\<rparr> tx) = Fail e)"
proof (intro conjI impI)
  assume "processStateNode E hID n tx = (r, tx') \<and> stn_NodeType n \<noteq> Leaf"
  then show "state_accounts (tabs tx') = state_accounts (tabs tx)"
    using processStateNode_not_leaf by blast
next
  assume a: "processStateNode E hID n tx = (Ok (), tx') \<and> stn_NodeType n = Leaf"
  then have ok: "processStateNode E hID n tx = (Ok (), tx')" and leaf: "stn_NodeType n = Leaf"
    by simp_all
  from processStateNode_Ok [OF ok] leaf
  show "\<exists>x b acct.
         rlpDecodeList E (stn_NodeValue n) = Inr [x, RBytes b] \<and>
         rlpDecodeAccount E b = Inr acct \<and>
         state_accounts (tabs tx') = state_accounts (tabs tx) @
           [(int (length (state_accounts (tabs tx))) + 1, int (length (state_cids (tabs tx))) + 1,
             \<lparr>sam_Balance = bigString E (acc_Balance acct), sam_Nonce = acc_Nonce acct,
              sam_CodeHash = acc_CodeHash acct, sam_StorageRoot = hashString E (acc_Root acct)\<rparr>)]"
    by auto
next
  assume a: "stn_NodeType n = Leaf \<and>
    store_fault E (opcount tx) = None \<and> store_fault E (Suc (opcount tx)) = None \<and>
    (rlpDecodeList E (stn_NodeValue n) = Inl e \<or>
     (\<exists>i. rlpDecodeList E (stn_NodeValue n) = Inr i \<and> length i \<noteq> 2 \<and> e = LeafNotTwoElements) \<or>
     (\<exists>x b. rlpDecodeList E (stn_NodeValue n) = Inr [x, RBytes b] \<and> rlpDecodeAccount E b = Inl e))"
  then have r: "fst (processStateNode E hID n tx) = Fail e \<and>
      state_accounts (tabs (snd (processStateNode E hID n tx))) = state_accounts (tabs tx)"
    by (intro processStateNode_leaf_fails) simp_all
  from r show "fst (processStateNode E hID n tx) = Fail e" by simp
  from r show "state_accounts (tabs (snd (processStateNode E hID n tx))) = state_accounts (tabs tx)"
    by simp
next
  assume a: "processStateAndStorage E hID sd tx = (Ok (), tx')"
  then have l: "stateLoop E hID (Nodes sd) tx = (Ok (), tx')"
    by (simp add: processStateAndStorage_def)
  from stateLoop_Ok [OF l]
  show "map fst (state_cids (tabs tx')) = map fst (state_cids (tabs tx)) @
        map (\<lambda>(k, n). int k + 1) (enumerate (length (state_cids (tabs tx))) (Nodes sd))" by simp
  from stateLoop_Ok [OF l]
  show "map (\<lambda>r. fst (snd r)) (state_accounts (tabs tx')) =
        map (\<lambda>r. fst (snd r)) (state_accounts (tabs tx)) @
        map (\<lambda>(k, n). int k + 1)
          (filter (\<lambda>(k, n). stn_NodeType n = Leaf)
             (enumerate (length (state_cids (tabs tx))) (Nodes sd)))" by simp
next
  assume "stateLoop E hID pre tx = (Ok (), tx1) \<and> fst (processStateNode E hID n tx1) = Fail e"
  then show "fst (processStateAndStorage E hID \<lparr>Nodes = pre @ n # rest\<rparr> tx) = Fail e"
    using stateLoop_stops_at_failure [of E hID pre tx tx1 n e rest]
    by (simp add: processStateAndStorage_def)
qed

lemma state_account_only_for_leaf_example:
  "state_accounts (tabs (snd (processStateNode demo_env 1 demo_branch empty_tx))) = [] \<and>
   state_accounts (tabs (snd (processStateNode demo_env 1 demo_leaf empty_tx))) =
     [(1, 1, \<lparr>sam_Balance = ''n'', sam_Nonce = 7, sam_CodeHash = [3, 3], sam_StorageRoot = ''bb''\<rparr>)] \<and>
   fst (processStateNode demo_env 1 (demo_leaf\<lparr>stn_NodeValue := [2]\<rparr>) empty_tx) =
     Fail LeafNotTwoElements \<and>
   map (\<lambda>r. fst (snd r)) (state_accounts (tabs (snd
     (processStateAndStorage demo_env 1 \<lparr>Nodes = [demo_branch, demo_leaf]\<rparr> empty_tx)))) = [2] \<and>
   fst (processStateAndStorage demo_env 1
     \<lparr>Nodes = [demo_branch] @ demo_leaf\<lparr>stn_NodeValue := [2]\<rparr> # [demo_leaf]\<rparr> empty_tx) =
     Fail LeafNotTwoElements"
proof -
  let ?bad = "demo_leaf\<lparr>stn_NodeValue := [2]\<rparr>"
  let ?t1 = "snd (processStateNode demo_env 1 demo_branch empty_tx)"
  have b: "processStateNode demo_env 1 demo_branch empty_tx =
      (Ok (), snd (processStateNode demo_env 1 demo_branch empty_tx))"
    "stn_NodeType demo_branch \<noteq> Leaf"
    by code_simp+
  have l: "processStateNode demo_env 1 demo_leaf empty_tx =
      (Ok (), snd (processStateNode demo_env 1 demo_leaf empty_tx))"
    "stn_NodeType demo_leaf = Leaf"
    by code_simp+
  have bad: "stn_NodeType ?bad = Leaf" "store_fault demo_env (opcount empty_tx) = None"
    "store_fault demo_env (Suc (opcount empty_tx)) = None"
    "rlpDecodeList demo_env (stn_NodeValue ?bad) = Inr [RBytes []]"
    by code_simp+
  have loop: "processStateAndStorage demo_env 1 \<lparr>Nodes = [demo_branch, demo_leaf]\<rparr> empty_tx =
      (Ok (), snd (processStateAndStorage demo_env 1 \<lparr>Nodes = [demo_branch, demo_leaf]\<rparr> empty_tx))"
    by code_simp
  have pre: "stateLoop demo_env 1 [demo_branch] empty_tx = (Ok (), ?t1)"
    by code_simp
  have vals: "state_accounts (tabs empty_tx) = []" "state_cids (tabs empty_tx) = []"
    "rlpDecodeList demo_env (stn_NodeValue demo_leaf) = Inr [RBytes [], RBytes [3]]"
    "rlpDecodeAccount demo_env [3] = Inr demo_account"
    "bigString demo_env (acc_Balance demo_account) = ''n''" "acc_Nonce demo_account = 7"
    "acc_CodeHash demo_account = [3, 3]" "hashString demo_env (acc_Root demo_account) = ''bb''"
    by code_simp+
  note leafthm = state_account_only_for_leaf
  have c1: "state_accounts (tabs (snd (processStateNode demo_env 1 demo_branch empty_tx))) = []"
    using leafthm [of demo_env 1 demo_branch empty_tx "Ok ()" ?t1] b vals by simp
  have c2: "state_accounts (tabs (snd (processStateNode demo_env 1 demo_leaf empty_tx))) =
     [(1, 1, \<lparr>sam_Balance = ''n'', sam_Nonce = 7, sam_CodeHash = [3, 3], sam_StorageRoot = ''bb''\<rparr>)]"
    using leafthm [of demo_env 1 demo_leaf empty_tx "Ok ()"
        "snd (processStateNode demo_env 1 demo_leaf empty_tx)"] l vals by auto
  have c3: "fst (processStateNode demo_env 1 ?bad empty_tx) = Fail LeafNotTwoElements"
    using leafthm [of demo_env 1 ?bad empty_tx _ _ LeafNotTwoElements] bad by simp
  have c3': "fst (processStateNode demo_env 1 ?bad ?t1) = Fail LeafNotTwoElements"
    by code_simp
  have c4: "map (\<lambda>r. fst (snd r)) (state_accounts (tabs (snd
     (processStateAndStorage demo_env 1 \<lparr>Nodes = [demo_branch, demo_leaf]\<rparr> empty_tx)))) = [2]"
    using leafthm [of demo_env 1 _ empty_tx _
        "snd (processStateAndStorage demo_env 1 \<lparr>Nodes = [demo_branch, demo_leaf]\<rparr> empty_tx)"
        _ "\<lparr>Nodes = [demo_branch, demo_leaf]\<rparr>"] loop vals b l
    by (simp add: enumerate_eq_zip upt_rec)
  have c5: "fst (processStateAndStorage demo_env 1
     \<lparr>Nodes = [demo_branch] @ ?bad # [demo_leaf]\<rparr> empty_tx) = Fail LeafNotTwoElements"
    using leafthm [of demo_env 1 ?bad empty_tx _ _ LeafNotTwoElements _ "[demo_branch]" ?t1 "[demo_leaf]"]
      pre c3' by simp
  from c1 c2 c3 c4 c5 show ?thesis by simp
qed

section \<open>What a successful run of Transform has done\<close>

lemma processHeader_Ok_frame:
  assumes "processHeader E h n r td tx = (Ok hID, tx')"
  shows "transaction_cids (tabs tx') = transaction_cids (tabs tx) \<and>
     receipt_cids (tabs tx') = receipt_cids (tabs tx) \<and>
     state_cids (tabs tx') = state_cids (tabs tx) \<and>
     state_accounts (tabs tx') = state_accounts (tabs tx) \<and>
     (\<exists>more. blocks (tabs tx') = blocks (tabs tx) @ more)"
  using assms unfolding processHeader_def PublishIPLD_def indexHeaderCID_def
  by (auto simp: ok_simps)

lemma processUncles_Ok_frame:
  "processUncles E hID bn us tx = (Ok (), tx') \<Longrightarrow>
     transaction_cids (tabs tx') = transaction_cids (tabs tx) \<and>
     receipt_cids (tabs tx') = receipt_cids (tabs tx) \<and>
     state_cids (tabs tx') = state_cids (tabs tx) \<and>
     state_accounts (tabs tx') = state_accounts (tabs tx) \<and>
     (\<exists>more. blocks (tabs tx') = blocks (tabs tx) @ more)"
proof (induction us arbitrary: tx)
  case Nil
  then show ?case by (simp add: yield_eq)
next
  case (Cons u us)
  from Cons.prems obtain ta tb where
    a: "PublishIPLD E (eh_Node u) tx = (Ok (), ta)" and
    b: "indexUncleCID E \<lparr>
         um_CID = cidString E (Cid (eh_Node u)),
         um_MhKey = MultihashKeyFromCID E (Cid (eh_Node u)),
         um_ParentHash = hashString E (hdr_ParentHash (eh_Header u)),
         um_BlockHash = hashString E (hdr_Hash (eh_Header u)),
         um_Reward = bigString E
           (CalcUncleMinerReward E bn (Int64 (hdr_Number (eh_Header u))))\<rparr> hID ta = (Ok (), tb)" and
    rest: "processUncles E hID bn us tb = (Ok (), tx')"
    by (auto simp: andThen_Ok)
  from a b have s: "transaction_cids (tabs tb) = transaction_cids (tabs tx)"
       "receipt_cids (tabs tb) = receipt_cids (tabs tx)"
       "state_cids (tabs tb) = state_cids (tabs tx)"
       "state_accounts (tabs tb) = state_accounts (tabs tx)"
       "\<exists>more. blocks (tabs tb) = blocks (tabs tx) @ more"
    by (auto simp: PublishIPLD_def indexUncleCID_def storeOp_Ok)
  from Cons.IH [OF rest] s show ?case by auto
qed

lemma storageLoop_Ok_frame:
  "storageLoop E stateID sns tx = (Ok (), tx') \<Longrightarrow>
     transaction_cids (tabs tx') = transaction_cids (tabs tx) \<and>
     receipt_cids (tabs tx') = receipt_cids (tabs tx) \<and>
     (\<exists>more. blocks (tabs tx') = blocks (tabs tx) @ more)"
proof (induction sns arbitrary: tx)
  case Nil
  then show ?case by (simp add: yield_eq)
next
  case (Cons sn sns)
  from Cons.prems obtain c ta tb where
    a: "PublishRaw E MEthStorageTrie KECCAK_256 (sto_NodeValue sn) tx = (Ok c, ta)" and
    b: "indexStorageCID E \<lparr>
         stm_Path = sto_Path sn,
         stm_StorageKey = hashString E (BytesToHash E (sto_LeafKey sn)),
         stm_CID = c,
         stm_MhKey = MultihashKeyFromCIDString E c,
         stm_NodeType = ResolveFromNodeType E (sto_NodeType sn)\<rparr> stateID ta = (Ok (), tb)" and
    rest: "storageLoop E stateID sns tb = (Ok (), tx')"
    by (auto simp: andThen_Ok)
  from a b have s: "transaction_cids (tabs tb) = transaction_cids (tabs tx)"
       "receipt_cids (tabs tb) = receipt_cids (tabs tx)"
       "\<exists>more. blocks (tabs tb) = blocks (tabs tx) @ more"
    by (auto simp: PublishRaw_def indexStorageCID_def storeOp_Ok)
  from Cons.IH [OF rest] s show ?case by auto
qed

lemma indexLeafAccount_Ok_frame:
  assumes "indexLeafAccount E n stateID tx = (Ok (), tx')"
  shows "transaction_cids (tabs tx') = transaction_cids (tabs tx) \<and>
     receipt_cids (tabs tx') = receipt_cids (tabs tx) \<and>
     blocks (tabs tx') = blocks (tabs tx)"
  using assms unfolding indexLeafAccount_def indexStateAccount_def
  by (auto simp: ok_simps split: if_splits)

lemma processStateNode_Ok_frame:
  assumes "processStateNode E hID n tx = (Ok (), tx')"
  shows "transaction_cids (tabs tx') = transaction_cids (tabs tx) \<and>
     receipt_cids (tabs tx') = receipt_cids (tabs tx) \<and>
     (\<exists>more. blocks (tabs tx') = blocks (tabs tx) @ more)"
proof -
  from assms obtain cidStr tx1 stateID tx2 tx3 where
    p: "PublishRaw E MEthStateTrie KECCAK_256 (stn_NodeValue n) tx = (Ok cidStr, tx1)" and
    ix: "indexStateCID E \<lparr>snm_Path = stn_Path n,
           snm_StateKey = hashString E (BytesToHash E (stn_LeafKey n)),
           snm_CID = cidStr, snm_MhKey = MultihashKeyFromCIDString E cidStr,
           snm_NodeType = ResolveFromNodeType E (stn_NodeType n)\<rparr> hID tx1 = (Ok stateID, tx2)" and
    lf: "(if stn_NodeType n = Leaf then indexLeafAccount E n stateID else yield (Ok ())) tx2 = (Ok (), tx3)" and
    st: "storageLoop E stateID (stn_StorageNodes n) tx3 = (Ok (), tx')"
    unfolding processStateNode_def by (auto simp: andThen_Ok)
  from p have t1: "transaction_cids (tabs tx1) = transaction_cids (tabs tx)"
      "receipt_cids (tabs tx1) = receipt_cids (tabs tx)"
      "\<exists>more. blocks (tabs tx1) = blocks (tabs tx) @ more"
    by (auto simp: PublishRaw_def storeOp_Ok)
  from ix have t2: "transaction_cids (tabs tx2) = transaction_cids (tabs tx1)"
      "receipt_cids (tabs tx2) = receipt_cids (tabs tx1)"
      "blocks (tabs tx2) = blocks (tabs tx1)"
    by (auto simp: indexStateCID_def storeOp_Ok)
  from lf have t3: "transaction_cids (tabs tx3) = transaction_cids (tabs tx2)"
      "receipt_cids (tabs tx3) = receipt_cids (tabs tx2)"
      "blocks (tabs tx3) = blocks (tabs tx2)"
    using indexLeafAccount_Ok_frame [of E n stateID tx2 tx3]
    by (auto simp: yield_eq split: if_splits)
  from storageLoop_Ok_frame [OF st] t1 t2 t3 show ?thesis by auto
qed

lemma stateLoop_Ok_frame:
  "stateLoop E hID nodes tx = (Ok (), tx') \<Longrightarrow>
     transaction_cids (tabs tx') = transaction_cids (tabs tx) \<and>
     receipt_cids (tabs tx') = receipt_cids (tabs tx) \<and>
     (\<exists>more. blocks (tabs tx') = blocks (tabs tx) @ more)"
proof (induction nodes arbitrary: tx)
  case Nil
  then show ?case by (simp add: yield_eq)
next
  case (Cons n nodes)
  from Cons.prems obtain tx1 where
    n: "processStateNode E hID n tx = (Ok (), tx1)" and
    rest: "stateLoop E hID nodes tx1 = (Ok (), tx')"
    by (auto simp: andThen_Ok)
  from Cons.IH [OF rest] processStateNode_Ok_frame [OF n] show ?case by auto
qed

lemma Transform_success:
  assumes "Transform E d w payload = (Returns n None, d')"
  shows "\<exists>blk rcts0 rcts hn us txNs txTrieNs rctNs rctTrieNs hID tx1 tx2 tx3 sd tx4.
     rlpDecodeBlock E (BlockRlp payload) = Inr blk \<and>
     rlpDecodeReceipts E (ReceiptsRlp payload) = Inr rcts0 \<and>
     DeriveFields E rcts0 (hdr_Hash (blk_Header blk)) (NumberU64 blk) (blk_Transactions blk) = Inr rcts \<and>
     FromBlockAndReceipts E blk rcts = Inr (hn, us, txNs, txTrieNs, rctNs, rctTrieNs) \<and>
     \<not> shapeMismatch txNs txTrieNs rctNs rctTrieNs \<and>
     begin_fault E = None \<and>
     processHeader E (blk_Header blk) hn
       (CalcEthBlockReward E (blk_Header blk) (blk_Uncles blk) (blk_Transactions blk) rcts)
       (TotalDifficulty payload) \<lparr>tabs = committed d, opcount = 0\<rparr> = (Ok hID, tx1) \<and>
     processUncles E hID (Int64 (hdr_Number (blk_Header blk))) us tx1 = (Ok (), tx2) \<and>
     processReceiptsAndTxs E \<lparr>headerID = hID, blockNumber = hdr_Number (blk_Header blk),
        receipts = rcts, txs = blk_Transactions blk, rctNodes = rctNs, rctTrieNodes = rctTrieNs,
        txNodes = txNs, txTrieNodes = txTrieNs\<rparr> tx2 = (Ok (), tx3) \<and>
     rlpDecodeStateObject E (StateObjectRlp payload) = Inr sd \<and>
     processStateAndStorage E hID sd tx3 = (Ok (), tx4) \<and>
     n = Int64 (hdr_Number (blk_Header blk)) \<and>
     d' = snd (Commit E (d\<lparr>events := events d @ [TxBegin]\<rparr>) tx4)"
  using assms unfolding Transform_def Beginx_def Transform_body_def Transform_deferred_def
  by (auto split: sum.splits prod.splits if_splits option.splits res.splits transform_result.splits)





lemma Transform_after_begin:
  assumes "rlpDecodeBlock E (BlockRlp payload) = Inr blk"
    and "rlpDecodeReceipts E (ReceiptsRlp payload) = Inr rcts0"
    and "DeriveFields E rcts0 (hdr_Hash (blk_Header blk)) (NumberU64 blk) (blk_Transactions blk) = Inr rcts"
    and "FromBlockAndReceipts E blk rcts = Inr (hn, us, txNs, txTrieNs, rctNs, rctTrieNs)"
    and "\<not> shapeMismatch txNs txTrieNs rctNs rctTrieNs"
    and "begin_fault E = None"
    and "Transform_body E payload blk rcts hn us txNs txTrieNs rctNs rctTrieNs
           \<lparr>tabs = committed d, opcount = 0\<rparr> = (r, err, tx')"
  shows "Transform E d w payload = Transform_deferred E (d\<lparr>events := events d @ [TxBegin]\<rparr>) tx' r err"
  using assms by (simp add: Transform_def Beginx_def)

lemma Transform_Panics:
  assumes "Transform E d w payload = (Panics p, d')"
  shows "d' = d\<lparr>events := events d @ [TxBegin, TxRollback]\<rparr>"
  using assms unfolding Transform_def Beginx_def Transform_deferred_def Rollback_def
  by (auto split: sum.splits prod.splits if_splits option.splits transform_result.splits)

lemma Transform_body_success:
  assumes "Transform_body E payload blk rcts hn us txNs txTrieNs rctNs rctTrieNs tx = (Returns n None, err, tx')"
  shows "err = None \<and> n = Int64 (hdr_Number (blk_Header blk))"
  using assms unfolding Transform_body_def
  by (auto split: sum.splits prod.splits res.splits)

section \<open>Rows of a run that succeeds\<close>

lemma processReceiptsAndTxs_topics:
  assumes "processReceiptsAndTxs E args tx = (Ok (), tx')"
  shows "\<exists>newR.
     receipt_cids (tabs tx') = receipt_cids (tabs tx) @ newR \<and>
     length newR = length (receipts args) \<and>
     map (\<lambda>r. Topic0s (snd (snd r))) newR =
       map (\<lambda>rct. map (\<lambda>l. hashString E (log_Topics l ! 0))
         (filter (\<lambda>l. 0 < length (log_Topics l)) (rct_Logs rct))) (receipts args) \<and>
     map (\<lambda>r. Topic1s (snd (snd r))) newR =
       map (\<lambda>rct. map (\<lambda>l. hashString E (log_Topics l ! 1))
         (filter (\<lambda>l. 1 < length (log_Topics l)) (rct_Logs rct))) (receipts args) \<and>
     map (\<lambda>r. Topic2s (snd (snd r))) newR =
       map (\<lambda>rct. map (\<lambda>l. hashString E (log_Topics l ! 2))
         (filter (\<lambda>l. 2 < length (log_Topics l)) (rct_Logs rct))) (receipts args) \<and>
     map (\<lambda>r. Topic3s (snd (snd r))) newR =
       map (\<lambda>rct. map (\<lambda>l. hashString E (log_Topics l ! 3))
         (filter (\<lambda>l. 3 < length (log_Topics l)) (rct_Logs rct))) (receipts args)"
  using receiptsLoop_Ok [of E args "MakeSigner E (blockNumber args)" 0 "receipts args" tx tx'] assms
  unfolding processReceiptsAndTxs_def by blast

lemma Transform_success_tables:
  assumes ok: "Transform E d w payload = (Returns n None, d')" and c: "commit_fault E = None"
  shows "\<exists>blk rcts0 rcts hn us txNs txTrieNs rctNs rctTrieNs hID tx2 tx3.
     rlpDecodeBlock E (BlockRlp payload) = Inr blk \<and>
     rlpDecodeReceipts E (ReceiptsRlp payload) = Inr rcts0 \<and>
     DeriveFields E rcts0 (hdr_Hash (blk_Header blk)) (NumberU64 blk) (blk_Transactions blk) = Inr rcts \<and>
     FromBlockAndReceipts E blk rcts = Inr (hn, us, txNs, txTrieNs, rctNs, rctTrieNs) \<and>
     processReceiptsAndTxs E \<lparr>headerID = hID, blockNumber = hdr_Number (blk_Header blk),
        receipts = rcts, txs = blk_Transactions blk, rctNodes = rctNs, rctTrieNodes = rctTrieNs,
        txNodes = txNs, txTrieNodes = txTrieNs\<rparr> tx2 = (Ok (), tx3) \<and>
     transaction_cids (tabs tx2) = transaction_cids (committed d) \<and>
     receipt_cids (tabs tx2) = receipt_cids (committed d) \<and>
     transaction_cids (committed d') = transaction_cids (tabs tx3) \<and>
     receipt_cids (committed d') = receipt_cids (tabs tx3) \<and>
     (\<exists>more. blocks (committed d') = blocks (tabs tx3) @ more)"
proof -
  from Transform_success [OF ok] obtain blk rcts0 rcts hn us txNs txTrieNs rctNs rctTrieNs
      hID tx1 tx2 tx3 sd tx4 where
    dec: "rlpDecodeBlock E (BlockRlp payload) = Inr blk"
      "rlpDecodeReceipts E (ReceiptsRlp payload) = Inr rcts0"
      "DeriveFields E rcts0 (hdr_Hash (blk_Header blk)) (NumberU64 blk) (blk_Transactions blk) = Inr rcts"
      "FromBlockAndReceipts E blk rcts = Inr (hn, us, txNs, txTrieNs, rctNs, rctTrieNs)" and
    h: "processHeader E (blk_Header blk) hn
       (CalcEthBlockReward E (blk_Header blk) (blk_Uncles blk) (blk_Transactions blk) rcts)
       (TotalDifficulty payload) \<lparr>tabs = committed d, opcount = 0\<rparr> = (Ok hID, tx1)" and
    u: "processUncles E hID (Int64 (hdr_Number (blk_Header blk))) us tx1 = (Ok (), tx2)" and
    p: "processReceiptsAndTxs E \<lparr>headerID = hID, blockNumber = hdr_Number (blk_Header blk),
        receipts = rcts, txs = blk_Transactions blk, rctNodes = rctNs, rctTrieNodes = rctTrieNs,
        txNodes = txNs, txTrieNodes = txTrieNs\<rparr> tx2 = (Ok (), tx3)" and
    s: "processStateAndStorage E hID sd tx3 = (Ok (), tx4)" and
    d': "d' = snd (Commit E (d\<lparr>events := events d @ [TxBegin]\<rparr>) tx4)"
    by blast
  from d' c have cm: "committed d' = tabs tx4"
    by (simp add: Commit_def)
  from s have "stateLoop E hID (Nodes sd) tx3 = (Ok (), tx4)"
    by (simp add: processStateAndStorage_def)
  from stateLoop_Ok_frame [OF this] cm have f4:
    "transaction_cids (committed d') = transaction_cids (tabs tx3)"
    "receipt_cids (committed d') = receipt_cids (tabs tx3)"
    "\<exists>more. blocks (committed d') = blocks (tabs tx3) @ more"
    by simp_all
  from processHeader_Ok_frame [OF h] processUncles_Ok_frame [OF u] have f2:
    "transaction_cids (tabs tx2) = transaction_cids (committed d)"
    "receipt_cids (tabs tx2) = receipt_cids (committed d)"
    by simp_all
  from dec p f2 f4 show ?thesis by blast
qed

lemma map_eq_nth: "map f xs = map g ys \<Longrightarrow> k < length xs \<Longrightarrow> f (xs ! k) = g (ys ! k)"
proof -
  assume e: "map f xs = map g ys" and k: "k < length xs"
  from e have "length xs = length ys" by (rule map_eq_imp_length_eq)
  with k have "map f xs ! k = f (xs ! k)" "map g ys ! k = g (ys ! k)" by simp_all
  with e show ?thesis by simp
qed

lemma processReceiptsAndTxs_creation:
  assumes ok: "processReceiptsAndTxs E args tx = (Ok (), tx')"
  shows "\<exists>newT newR.
     transaction_cids (tabs tx') = transaction_cids (tabs tx) @ newT \<and>
     receipt_cids (tabs tx') = receipt_cids (tabs tx) @ newR \<and>
     length newT = length (receipts args) \<and> length newR = length (receipts args) \<and>
     length (receipts args) \<le> length (txs args) \<and>
     (\<forall>k < length (receipts args).
        fst (snd (newR ! k)) = fst (newT ! k) \<and>
        tm_Index (snd (snd (newT ! k))) = int k \<and>
        tm_Data (snd (snd (newT ! k))) = trx_Data (txs args ! k) \<and>
        (if rct_ContractAddress (receipts args ! k) = zeroAddress
         then \<not> tm_Deployment (snd (snd (newT ! k))) \<and>
              Contract (snd (snd (newR ! k))) = [] \<and> ContractHash (snd (snd (newR ! k))) = []
         else (addrString E (rct_ContractAddress (receipts args ! k)) \<noteq> [] \<and>
               HexToAddress E (addrString E (rct_ContractAddress (receipts args ! k))) =
                 rct_ContractAddress (receipts args ! k) \<longrightarrow>
               tm_Deployment (snd (snd (newT ! k))) \<and>
               Contract (snd (snd (newR ! k))) = addrString E (rct_ContractAddress (receipts args ! k)) \<and>
               ContractHash (snd (snd (newR ! k))) =
                 hashString E (Keccak256Hash E (rct_ContractAddress (receipts args ! k))) \<and>
               (MultihashKeyFromCID E
                  (CidV1 MEthStorageTrie (multihashSum E KECCAK_256 (trx_Data (txs args ! k)))),
                trx_Data (txs args ! k)) \<in> set (blocks (tabs tx')))))"
proof -
  let ?rcts = "receipts args"
  let ?F = "\<lambda>(k, rct).
       [(MultihashKeyFromCID E (Cid (txTrieNodes args ! k)), RawData (txTrieNodes args ! k)),
        (MultihashKeyFromCID E (Cid (rctTrieNodes args ! k)), RawData (rctTrieNodes args ! k)),
        (MultihashKeyFromCID E (Cid (txNodes args ! k)), RawData (txNodes args ! k)),
        (MultihashKeyFromCID E (Cid (rctNodes args ! k)), RawData (rctNodes args ! k))] @
       (if HandleZeroAddr E (rct_ContractAddress rct) \<noteq> []
        then [(MultihashKeyFromCID E
                 (CidV1 MEthStorageTrie (multihashSum E KECCAK_256 (trx_Data (txs args ! k)))),
               trx_Data (txs args ! k))]
        else [])"
  from ok have "receiptsLoop E args (MakeSigner E (blockNumber args)) 0 ?rcts tx = (Ok (), tx')"
    by (simp add: processReceiptsAndTxs_def)
  from receiptsLoop_Ok [OF this] obtain newT newR where
    t: "transaction_cids (tabs tx') = transaction_cids (tabs tx) @ newT" and
    r: "receipt_cids (tabs tx') = receipt_cids (tabs tx) @ newR" and
    lt: "length newT = length ?rcts" and lr: "length newR = length ?rcts" and
    fk: "map (\<lambda>r. fst (snd r)) newR = map fst newT" and
    ix: "map (\<lambda>r. tm_Index (snd (snd r))) newT = map int [0..<0 + length ?rcts]" and
    da: "map (\<lambda>r. tm_Data (snd (snd r))) newT = map (\<lambda>k. trx_Data (txs args ! k)) [0..<0 + length ?rcts]" and
    dp: "map (\<lambda>r. tm_Deployment (snd (snd r))) newT =
       map (\<lambda>rct. HandleZeroAddr E (rct_ContractAddress rct) \<noteq> []) ?rcts" and
    co: "map (\<lambda>r. Contract (snd (snd r))) newR =
       map (\<lambda>rct. HandleZeroAddr E (rct_ContractAddress rct)) ?rcts" and
    ch: "map (\<lambda>r. ContractHash (snd (snd r))) newR =
       map (\<lambda>rct. if HandleZeroAddr E (rct_ContractAddress rct) \<noteq> []
          then hashString E (Keccak256Hash E (HexToAddress E (HandleZeroAddr E (rct_ContractAddress rct))))
          else []) ?rcts" and
    le: "length ?rcts \<le> length (txs args) - 0" and
    bl: "blocks (tabs tx') = blocks (tabs tx) @ concat (map ?F (enumerate 0 ?rcts))"
    by blast
  have each: "fst (snd (newR ! k)) = fst (newT ! k) \<and>
        tm_Index (snd (snd (newT ! k))) = int k \<and>
        tm_Data (snd (snd (newT ! k))) = trx_Data (txs args ! k) \<and>
        (if rct_ContractAddress (?rcts ! k) = zeroAddress
         then \<not> tm_Deployment (snd (snd (newT ! k))) \<and>
              Contract (snd (snd (newR ! k))) = [] \<and> ContractHash (snd (snd (newR ! k))) = []
         else (addrString E (rct_ContractAddress (?rcts ! k)) \<noteq> [] \<and>
               HexToAddress E (addrString E (rct_ContractAddress (?rcts ! k))) =
                 rct_ContractAddress (?rcts ! k) \<longrightarrow>
               tm_Deployment (snd (snd (newT ! k))) \<and>
               Contract (snd (snd (newR ! k))) = addrString E (rct_ContractAddress (?rcts ! k)) \<and>
               ContractHash (snd (snd (newR ! k))) =
                 hashString E (Keccak256Hash E (rct_ContractAddress (?rcts ! k))) \<and>
               (MultihashKeyFromCID E
                  (CidV1 MEthStorageTrie (multihashSum E KECCAK_256 (trx_Data (txs args ! k)))),
                trx_Data (txs args ! k)) \<in> set (blocks (tabs tx'))))"
    if k: "k < length ?rcts" for k
  proof -
    from k lt lr have kt: "k < length newT" and kr: "k < length newR" by simp_all
    have 1: "fst (snd (newR ! k)) = fst (newT ! k)"
      using map_eq_nth [OF fk kr] .
    have 2: "tm_Index (snd (snd (newT ! k))) = int k"
      using map_eq_nth [OF ix kt] k by simp
    have 3: "tm_Data (snd (snd (newT ! k))) = trx_Data (txs args ! k)"
      using map_eq_nth [OF da kt] k by simp
    have 4: "tm_Deployment (snd (snd (newT ! k))) =
        (HandleZeroAddr E (rct_ContractAddress (?rcts ! k)) \<noteq> [])"
      using map_eq_nth [OF dp kt] .
    have 5: "Contract (snd (snd (newR ! k))) = HandleZeroAddr E (rct_ContractAddress (?rcts ! k))"
      using map_eq_nth [OF co kr] .
    have 6: "ContractHash (snd (snd (newR ! k))) =
        (if HandleZeroAddr E (rct_ContractAddress (?rcts ! k)) \<noteq> []
          then hashString E (Keccak256Hash E (HexToAddress E (HandleZeroAddr E (rct_ContractAddress (?rcts ! k)))))
          else [])"
      using map_eq_nth [OF ch kr] .
    from k have mem: "(k, ?rcts ! k) \<in> set (enumerate 0 ?rcts)"
      by (simp add: in_set_enumerate_eq)
    have 7: "(MultihashKeyFromCID E
                  (CidV1 MEthStorageTrie (multihashSum E KECCAK_256 (trx_Data (txs args ! k)))),
                trx_Data (txs args ! k)) \<in> set (blocks (tabs tx'))"
      if nz: "HandleZeroAddr E (rct_ContractAddress (?rcts ! k)) \<noteq> []"
    proof -
      from nz have "(MultihashKeyFromCID E
                  (CidV1 MEthStorageTrie (multihashSum E KECCAK_256 (trx_Data (txs args ! k)))),
                trx_Data (txs args ! k)) \<in> set (?F (k, ?rcts ! k))"
        by simp
      with mem have "(MultihashKeyFromCID E
                  (CidV1 MEthStorageTrie (multihashSum E KECCAK_256 (trx_Data (txs args ! k)))),
                trx_Data (txs args ! k)) \<in> set (concat (map ?F (enumerate 0 ?rcts)))"
        unfolding set_concat set_map by blast
      then show ?thesis unfolding bl by simp
    qed
    show ?thesis
    proof (cases "rct_ContractAddress (?rcts ! k) = zeroAddress")
      case True
      then have "HandleZeroAddr E (rct_ContractAddress (?rcts ! k)) = []"
        by (simp add: HandleZeroAddr_def)
      with True 1 2 3 4 5 6 show ?thesis by simp
    next
      case False
      then have h: "HandleZeroAddr E (rct_ContractAddress (?rcts ! k)) =
          addrString E (rct_ContractAddress (?rcts ! k))"
        by (simp add: HandleZeroAddr_def)
      with False 1 2 3 4 5 6 7 show ?thesis by auto
    qed
  qed
  from t r lt lr le each show ?thesis
    by (intro exI [of _ newT] exI [of _ newR]) simp
qed

lemma processReceiptAndTx_creation:
  assumes ok: "processReceiptAndTx E args signer i rct tx = (Ok (), tx')"
    and nonempty: "addrString E (rct_ContractAddress rct) \<noteq> []"
    and roundtrip: "HexToAddress E (addrString E (rct_ContractAddress rct)) = rct_ContractAddress rct"
  shows "\<exists>txID rID tm rm.
     transaction_cids (tabs tx') = transaction_cids (tabs tx) @ [(txID, headerID args, tm)] \<and>
     receipt_cids (tabs tx') = receipt_cids (tabs tx) @ [(rID, txID, rm)] \<and>
     (if rct_ContractAddress rct \<noteq> zeroAddress
      then tm_Deployment tm \<and>
           Contract rm = addrString E (rct_ContractAddress rct) \<and>
           ContractHash rm = hashString E (Keccak256Hash E (rct_ContractAddress rct)) \<and>
           last (blocks (tabs tx')) =
             (MultihashKeyFromCID E
                (CidV1 MEthStorageTrie (multihashSum E KECCAK_256 (trx_Data (txs args ! i)))),
              trx_Data (txs args ! i)) \<and>
           length (blocks (tabs tx')) = length (blocks (tabs tx)) + 5
      else \<not> tm_Deployment tm \<and> Contract rm = [] \<and> ContractHash rm = [] \<and>
           length (blocks (tabs tx')) = length (blocks (tabs tx)) + 4)"
proof -
  from processReceiptAndTx_Ok [OF ok] obtain fromAddr ts mc txID rID tm rm where
    rows: "transaction_cids (tabs tx') = transaction_cids (tabs tx) @ [(txID, headerID args, tm)]"
      "receipt_cids (tabs tx') = receipt_cids (tabs tx) @ [(rID, txID, rm)]" and
    tm: "tm_Deployment tm = (HandleZeroAddr E (rct_ContractAddress rct) \<noteq> [])" and
    rm: "Contract rm = HandleZeroAddr E (rct_ContractAddress rct)"
      "ContractHash rm = (if HandleZeroAddr E (rct_ContractAddress rct) \<noteq> []
           then hashString E (Keccak256Hash E (HexToAddress E (HandleZeroAddr E (rct_ContractAddress rct))))
           else [])" and
    bl: "blocks (tabs tx') = blocks (tabs tx) @
      [(MultihashKeyFromCID E (Cid (txTrieNodes args ! i)), RawData (txTrieNodes args ! i)),
       (MultihashKeyFromCID E (Cid (rctTrieNodes args ! i)), RawData (rctTrieNodes args ! i)),
       (MultihashKeyFromCID E (Cid (txNodes args ! i)), RawData (txNodes args ! i)),
       (MultihashKeyFromCID E (Cid (rctNodes args ! i)), RawData (rctNodes args ! i))] @
      (if HandleZeroAddr E (rct_ContractAddress rct) \<noteq> []
       then [(MultihashKeyFromCID E (CidV1 MEthStorageTrie (multihashSum E KECCAK_256 (trx_Data (txs args ! i)))),
              trx_Data (txs args ! i))]
       else [])"
    by force
  show ?thesis
  proof (cases "rct_ContractAddress rct = zeroAddress")
    case True
    then have "HandleZeroAddr E (rct_ContractAddress rct) = []"
      by (simp add: HandleZeroAddr_def)
    with True rows tm rm bl show ?thesis
      by (intro exI [of _ txID] exI [of _ rID] exI [of _ tm] exI [of _ rm]) simp
  next
    case False
    then have h: "HandleZeroAddr E (rct_ContractAddress rct) = addrString E (rct_ContractAddress rct)"
      by (simp add: HandleZeroAddr_def)
    with False rows tm rm bl nonempty roundtrip show ?thesis
      by (intro exI [of _ txID] exI [of _ rID] exI [of _ tm] exI [of _ rm]) simp
  qed
qed

lemma Transform_creation:
  assumes ok: "Transform E d w payload = (Returns n None, d')" and c: "commit_fault E = None"
  shows "\<exists>blk rcts0 rcts newT newR.
     rlpDecodeBlock E (BlockRlp payload) = Inr blk \<and>
     rlpDecodeReceipts E (ReceiptsRlp payload) = Inr rcts0 \<and>
     DeriveFields E rcts0 (hdr_Hash (blk_Header blk)) (NumberU64 blk) (blk_Transactions blk) = Inr rcts \<and>
     transaction_cids (committed d') = transaction_cids (committed d) @ newT \<and>
     receipt_cids (committed d') = receipt_cids (committed d) @ newR \<and>
     length newT = length rcts \<and> length newR = length rcts \<and>
     length rcts \<le> length (blk_Transactions blk) \<and>
     (\<forall>k < length rcts.
        fst (snd (newR ! k)) = fst (newT ! k) \<and>
        tm_Index (snd (snd (newT ! k))) = int k \<and>
        tm_Data (snd (snd (newT ! k))) = trx_Data (blk_Transactions blk ! k) \<and>
        (if rct_ContractAddress (rcts ! k) = zeroAddress
         then \<not> tm_Deployment (snd (snd (newT ! k))) \<and>
              Contract (snd (snd (newR ! k))) = [] \<and> ContractHash (snd (snd (newR ! k))) = []
         else (addrString E (rct_ContractAddress (rcts ! k)) \<noteq> [] \<and>
               HexToAddress E (addrString E (rct_ContractAddress (rcts ! k))) =
                 rct_ContractAddress (rcts ! k) \<longrightarrow>
               tm_Deployment (snd (snd (newT ! k))) \<and>
               Contract (snd (snd (newR ! k))) = addrString E (rct_ContractAddress (rcts ! k)) \<and>
               ContractHash (snd (snd (newR ! k))) =
                 hashString E (Keccak256Hash E (rct_ContractAddress (rcts ! k))) \<and>
               (MultihashKeyFromCID E
                  (CidV1 MEthStorageTrie
                     (multihashSum E KECCAK_256 (trx_Data (blk_Transactions blk ! k)))),
                trx_Data (blk_Transactions blk ! k)) \<in> set (blocks (committed d')))))"
proof -
  from Transform_success_tables [OF ok c] obtain blk rcts0 rcts txNs txTrieNs rctNs rctTrieNs
      hID tx2 tx3 more where
    dec: "rlpDecodeBlock E (BlockRlp payload) = Inr blk"
      "rlpDecodeReceipts E (ReceiptsRlp payload) = Inr rcts0"
      "DeriveFields E rcts0 (hdr_Hash (blk_Header blk)) (NumberU64 blk) (blk_Transactions blk) = Inr rcts" and
    p: "processReceiptsAndTxs E \<lparr>headerID = hID, blockNumber = hdr_Number (blk_Header blk),
        receipts = rcts, txs = blk_Transactions blk, rctNodes = rctNs, rctTrieNodes = rctTrieNs,
        txNodes = txNs, txTrieNodes = txTrieNs\<rparr> tx2 = (Ok (), tx3)" and
    f: "transaction_cids (tabs tx2) = transaction_cids (committed d)"
       "receipt_cids (tabs tx2) = receipt_cids (committed d)"
       "transaction_cids (committed d') = transaction_cids (tabs tx3)"
       "receipt_cids (committed d') = receipt_cids (tabs tx3)" and
    b: "blocks (committed d') = blocks (tabs tx3) @ more"
    by blast
  from b have sub: "\<And>x. x \<in> set (blocks (tabs tx3)) \<Longrightarrow> x \<in> set (blocks (committed d'))"
    by simp
  have "\<exists>newT newR.
       transaction_cids (tabs tx3) = transaction_cids (tabs tx2) @ newT \<and>
       receipt_cids (tabs tx3) = receipt_cids (tabs tx2) @ newR \<and>
       length newT = length rcts \<and> length newR = length rcts \<and>
       length rcts \<le> length (blk_Transactions blk) \<and>
       (\<forall>k < length rcts.
        fst (snd (newR ! k)) = fst (newT ! k) \<and>
        tm_Index (snd (snd (newT ! k))) = int k \<and>
        tm_Data (snd (snd (newT ! k))) = trx_Data (blk_Transactions blk ! k) \<and>
        (if rct_ContractAddress (rcts ! k) = zeroAddress
         then \<not> tm_Deployment (snd (snd (newT ! k))) \<and>
              Contract (snd (snd (newR ! k))) = [] \<and> ContractHash (snd (snd (newR ! k))) = []
         else (addrString E (rct_ContractAddress (rcts ! k)) \<noteq> [] \<and>
               HexToAddress E (addrString E (rct_ContractAddress (rcts ! k))) =
                 rct_ContractAddress (rcts ! k) \<longrightarrow>
               tm_Deployment (snd (snd (newT ! k))) \<and>
               Contract (snd (snd (newR ! k))) = addrString E (rct_ContractAddress (rcts ! k)) \<and>
               ContractHash (snd (snd (newR ! k))) =
                 hashString E (Keccak256Hash E (rct_ContractAddress (rcts ! k))) \<and>
               (MultihashKeyFromCID E
                  (CidV1 MEthStorageTrie
                     (multihashSum E KECCAK_256 (trx_Data (blk_Transactions blk ! k)))),
                trx_Data (blk_Transactions blk ! k)) \<in> set (blocks (tabs tx3)))))"
    using processReceiptsAndTxs_creation [OF p] by (simp cong: if_cong)
  then obtain newT newR where
    t: "transaction_cids (tabs tx3) = transaction_cids (tabs tx2) @ newT"
       "receipt_cids (tabs tx3) = receipt_cids (tabs tx2) @ newR"
       "length newT = length rcts" "length newR = length rcts"
       "length rcts \<le> length (blk_Transactions blk)" and
    each: "\<forall>k < length rcts.
        fst (snd (newR ! k)) = fst (newT ! k) \<and>
        tm_Index (snd (snd (newT ! k))) = int k \<and>
        tm_Data (snd (snd (newT ! k))) = trx_Data (blk_Transactions blk ! k) \<and>
        (if rct_ContractAddress (rcts ! k) = zeroAddress
         then \<not> tm_Deployment (snd (snd (newT ! k))) \<and>
              Contract (snd (snd (newR ! k))) = [] \<and> ContractHash (snd (snd (newR ! k))) = []
         else (addrString E (rct_ContractAddress (rcts ! k)) \<noteq> [] \<and>
               HexToAddress E (addrString E (rct_ContractAddress (rcts ! k))) =
                 rct_ContractAddress (rcts ! k) \<longrightarrow>
               tm_Deployment (snd (snd (newT ! k))) \<and>
               Contract (snd (snd (newR ! k))) = addrString E (rct_ContractAddress (rcts ! k)) \<and>
               ContractHash (snd (snd (newR ! k))) =
                 hashString E (Keccak256Hash E (rct_ContractAddress (rcts ! k))) \<and>
               (MultihashKeyFromCID E
                  (CidV1 MEthStorageTrie
                     (multihashSum E KECCAK_256 (trx_Data (blk_Transactions blk ! k)))),
                trx_Data (blk_Transactions blk ! k)) \<in> set (blocks (tabs tx3))))"
    by blast
  from each sub have each': "\<forall>k < length rcts.
        fst (snd (newR ! k)) = fst (newT ! k) \<and>
        tm_Index (snd (snd (newT ! k))) = int k \<and>
        tm_Data (snd (snd (newT ! k))) = trx_Data (blk_Transactions blk ! k) \<and>
        (if rct_ContractAddress (rcts ! k) = zeroAddress
         then \<not> tm_Deployment (snd (snd (newT ! k))) \<and>
              Contract (snd (snd (newR ! k))) = [] \<and> ContractHash (snd (snd (newR ! k))) = []
         else (addrString E (rct_ContractAddress (rcts ! k)) \<noteq> [] \<and>
               HexToAddress E (addrString E (rct_ContractAddress (rcts ! k))) =
                 rct_ContractAddress (rcts ! k) \<longrightarrow>
               tm_Deployment (snd (snd (newT ! k))) \<and>
               Contract (snd (snd (newR ! k))) = addrString E (rct_ContractAddress (rcts ! k)) \<and>
               ContractHash (snd (snd (newR ! k))) =
                 hashString E (Keccak256Hash E (rct_ContractAddress (rcts ! k))) \<and>
               (MultihashKeyFromCID E
                  (CidV1 MEthStorageTrie
                     (multihashSum E KECCAK_256 (trx_Data (blk_Transactions blk ! k)))),
                trx_Data (blk_Transactions blk ! k)) \<in> set (blocks (committed d'))))"
    by (auto split: if_splits)
  from dec t f each' show ?thesis
    by (intro exI [of _ blk] exI [of _ rcts0] exI [of _ rcts] exI [of _ newT] exI [of _ newR]) simp
qed

section \<open>Topics of a receipt's logs\<close>




text \<open>
  C3, as the code has it. Each pass of the loop over the receipts that succeeds
  appends one receipt row whose array \<open>topicN\<close> (N = 0, 1, 2, 3) lists, in log order,
  topic N of those logs of the receipt that have more than N topics; a log with fewer
  topics adds nothing to \<open>topicN\<close>, and no empty string is stored in its place. When
  \<open>processReceiptsAndTxs\<close> returns without error it has appended one such row for each
  receipt, in the order of the receipts; when \<open>Transform\<close> returns without error and
  the commit succeeds, these are the receipt rows it has added to the database, one
  for each decoded receipt.
\<close>

theorem topic_arrays_hold_present_topics:
  "(processReceiptAndTx E args signer i rct tx = (Ok (), tx') \<longrightarrow>
      (\<exists>rID txID m.
         receipt_cids (tabs tx') = receipt_cids (tabs tx) @ [(rID, txID, m)] \<and>
         Topic0s m = map (\<lambda>l. hashString E (log_Topics l ! 0))
            (filter (\<lambda>l. 0 < length (log_Topics l)) (rct_Logs rct)) \<and>
         Topic1s m = map (\<lambda>l. hashString E (log_Topics l ! 1))
            (filter (\<lambda>l. 1 < length (log_Topics l)) (rct_Logs rct)) \<and>
         Topic2s m = map (\<lambda>l. hashString E (log_Topics l ! 2))
            (filter (\<lambda>l. 2 < length (log_Topics l)) (rct_Logs rct)) \<and>
         Topic3s m = map (\<lambda>l. hashString E (log_Topics l ! 3))
            (filter (\<lambda>l. 3 < length (log_Topics l)) (rct_Logs rct)))) \<and>
   (processReceiptsAndTxs E args tx = (Ok (), tx') \<longrightarrow>
      (\<exists>newR.
         receipt_cids (tabs tx') = receipt_cids (tabs tx) @ newR \<and>
         length newR = length (receipts args) \<and>
         map (\<lambda>r. Topic0s (snd (snd r))) newR =
           map (\<lambda>rct. map (\<lambda>l. hashString E (log_Topics l ! 0))
             (filter (\<lambda>l. 0 < length (log_Topics l)) (rct_Logs rct))) (receipts args) \<and>
         map (\<lambda>r. Topic1s (snd (snd r))) newR =
           map (\<lambda>rct. map (\<lambda>l. hashString E (log_Topics l ! 1))
             (filter (\<lambda>l. 1 < length (log_Topics l)) (rct_Logs rct))) (receipts args) \<and>
         map (\<lambda>r. Topic2s (snd (snd r))) newR =
           map (\<lambda>rct. map (\<lambda>l. hashString E (log_Topics l ! 2))
             (filter (\<lambda>l. 2 < length (log_Topics l)) (rct_Logs rct))) (receipts args) \<and>
         map (\<lambda>r. Topic3s (snd (snd r))) newR =
           map (\<lambda>rct. map (\<lambda>l. hashString E (log_Topics l ! 3))
             (filter (\<lambda>l. 3 < length (log_Topics l)) (rct_Logs rct))) (receipts args))) \<and>
   (Transform E d w payload = (Returns n None, d') \<and> commit_fault E = None \<longrightarrow>
      (\<exists>blk rcts0 rcts newR.
         rlpDecodeBlock E (BlockRlp payload) = Inr blk \<and>
         rlpDecodeReceipts E (ReceiptsRlp payload) = Inr rcts0 \<and>
         DeriveFields E rcts0 (hdr_Hash (blk_Header blk)) (NumberU64 blk) (blk_Transactions blk) =
           Inr rcts \<and>
         receipt_cids (committed d') = receipt_cids (committed d) @ newR \<and>
         length newR = length rcts \<and>
         map (\<lambda>r. Topic0s (snd (snd r))) newR =
           map (\<lambda>rct. map (\<lambda>l. hashString E (log_Topics l ! 0))
             (filter (\<lambda>l. 0 < length (log_Topics l)) (rct_Logs rct))) rcts \<and>
         map (\<lambda>r. Topic1s (snd (snd r))) newR =
           map (\<lambda>rct. map (\<lambda>l. hashString E (log_Topics l ! 1))
             (filter (\<lambda>l. 1 < length (log_Topics l)) (rct_Logs rct))) rcts \<and>
         map (\<lambda>r. Topic2s (snd (snd r))) newR =
           map (\<lambda>rct. map (\<lambda>l. hashString E (log_Topics l ! 2))
             (filter (\<lambda>l. 2 < length (log_Topics l)) (rct_Logs rct))) rcts \<and>
         map (\<lambda>r. Topic3s (snd (snd r))) newR =
           map (\<lambda>rct. map (\<lambda>l. hashString E (log_Topics l ! 3))
             (filter (\<lambda>l. 3 < length (log_Topics l)) (rct_Logs rct))) rcts))"
proof (intro conjI impI)
  assume ok: "processReceiptAndTx E args signer i rct tx = (Ok (), tx')"
  from processReceiptAndTx_Ok [OF ok] obtain ts mc rID txID m where
    ll: "logLoop E (replicate 4 []) [] (rct_Logs rct) = Ok (ts, mc)" and
    rows: "receipt_cids (tabs tx') = receipt_cids (tabs tx) @ [(rID, txID, m)]" and
    m: "Topic0s m = ts ! 0" "Topic1s m = ts ! 1" "Topic2s m = ts ! 2" "Topic3s m = ts ! 3"
    by force
  from logLoop_result [OF ll] have
    el: "\<And>k. k < 4 \<Longrightarrow> ts ! k =
        map (\<lambda>l. hashString E (log_Topics l ! k)) (filter (\<lambda>l. k < length (log_Topics l)) (rct_Logs rct))"
    by simp
  from rows m el [of 0] el [of 1] el [of 2] el [of 3]
  show "\<exists>rID txID m.
         receipt_cids (tabs tx') = receipt_cids (tabs tx) @ [(rID, txID, m)] \<and>
         Topic0s m = map (\<lambda>l. hashString E (log_Topics l ! 0))
            (filter (\<lambda>l. 0 < length (log_Topics l)) (rct_Logs rct)) \<and>
         Topic1s m = map (\<lambda>l. hashString E (log_Topics l ! 1))
            (filter (\<lambda>l. 1 < length (log_Topics l)) (rct_Logs rct)) \<and>
         Topic2s m = map (\<lambda>l. hashString E (log_Topics l ! 2))
            (filter (\<lambda>l. 2 < length (log_Topics l)) (rct_Logs rct)) \<and>
         Topic3s m = map (\<lambda>l. hashString E (log_Topics l ! 3))
            (filter (\<lambda>l. 3 < length (log_Topics l)) (rct_Logs rct))"
    by (intro exI [of _ rID] exI [of _ txID] exI [of _ m]) simp
next
  assume "processReceiptsAndTxs E args tx = (Ok (), tx')"
  from processReceiptsAndTxs_topics [OF this]
  show "\<exists>newR.
         receipt_cids (tabs tx') = receipt_cids (tabs tx) @ newR \<and>
         length newR = length (receipts args) \<and>
         map (\<lambda>r. Topic0s (snd (snd r))) newR =
           map (\<lambda>rct. map (\<lambda>l. hashString E (log_Topics l ! 0))
             (filter (\<lambda>l. 0 < length (log_Topics l)) (rct_Logs rct))) (receipts args) \<and>
         map (\<lambda>r. Topic1s (snd (snd r))) newR =
           map (\<lambda>rct. map (\<lambda>l. hashString E (log_Topics l ! 1))
             (filter (\<lambda>l. 1 < length (log_Topics l)) (rct_Logs rct))) (receipts args) \<and>
         map (\<lambda>r. Topic2s (snd (snd r))) newR =
           map (\<lambda>rct. map (\<lambda>l. hashString E (log_Topics l ! 2))
             (filter (\<lambda>l. 2 < length (log_Topics l)) (rct_Logs rct))) (receipts args) \<and>
         map (\<lambda>r. Topic3s (snd (snd r))) newR =
           map (\<lambda>rct. map (\<lambda>l. hashString E (log_Topics l ! 3))
             (filter (\<lambda>l. 3 < length (log_Topics l)) (rct_Logs rct))) (receipts args)" .
next
  assume a: "Transform E d w payload = (Returns n None, d') \<and> commit_fault E = None"
  then have ok: "Transform E d w payload = (Returns n None, d')" and c: "commit_fault E = None"
    by simp_all
  from Transform_success_tables [OF ok c] obtain blk rcts0 rcts txNs txTrieNs rctNs rctTrieNs
      hID tx2 tx3 where
    dec: "rlpDecodeBlock E (BlockRlp payload) = Inr blk"
      "rlpDecodeReceipts E (ReceiptsRlp payload) = Inr rcts0"
      "DeriveFields E rcts0 (hdr_Hash (blk_Header blk)) (NumberU64 blk) (blk_Transactions blk) = Inr rcts" and
    p: "processReceiptsAndTxs E \<lparr>headerID = hID, blockNumber = hdr_Number (blk_Header blk),
        receipts = rcts, txs = blk_Transactions blk, rctNodes = rctNs, rctTrieNodes = rctTrieNs,
        txNodes = txNs, txTrieNodes = txTrieNs\<rparr> tx2 = (Ok (), tx3)" and
    f: "receipt_cids (tabs tx2) = receipt_cids (committed d)"
       "receipt_cids (committed d') = receipt_cids (tabs tx3)"
    by blast
  from processReceiptsAndTxs_topics [OF p] f dec
  show "\<exists>blk rcts0 rcts newR.
         rlpDecodeBlock E (BlockRlp payload) = Inr blk \<and>
         rlpDecodeReceipts E (ReceiptsRlp payload) = Inr rcts0 \<and>
         DeriveFields E rcts0 (hdr_Hash (blk_Header blk)) (NumberU64 blk) (blk_Transactions blk) =
           Inr rcts \<and>
         receipt_cids (committed d') = receipt_cids (committed d) @ newR \<and>
         length newR = length rcts \<and>
         map (\<lambda>r. Topic0s (snd (snd r))) newR =
           map (\<lambda>rct. map (\<lambda>l. hashString E (log_Topics l ! 0))
             (filter (\<lambda>l. 0 < length (log_Topics l)) (rct_Logs rct))) rcts \<and>
         map (\<lambda>r. Topic1s (snd (snd r))) newR =
           map (\<lambda>rct. map (\<lambda>l. hashString E (log_Topics l ! 1))
             (filter (\<lambda>l. 1 < length (log_Topics l)) (rct_Logs rct))) rcts \<and>
         map (\<lambda>r. Topic2s (snd (snd r))) newR =
           map (\<lambda>rct. map (\<lambda>l. hashString E (log_Topics l ! 2))
             (filter (\<lambda>l. 2 < length (log_Topics l)) (rct_Logs rct))) rcts \<and>
         map (\<lambda>r. Topic3s (snd (snd r))) newR =
           map (\<lambda>rct. map (\<lambda>l. hashString E (log_Topics l ! 3))
             (filter (\<lambda>l. 3 < length (log_Topics l)) (rct_Logs rct))) rcts"
    by (auto simp del: One_nat_def)
qed

theorem topic_arrays_hold_present_topics_witness:
  "(\<exists>rID txID m.
     receipt_cids (tabs (snd (processReceiptAndTx demo_env demo_args 0 0 demo_receipt empty_tx))) =
       [(rID, txID, m)] \<and>
     Topic0s m = [''a'', ''b''] \<and> Topic1s m = [''c''] \<and> Topic2s m = [] \<and> Topic3s m = []) \<and>
   map (\<lambda>r. Topic0s (snd (snd r)))
     (receipt_cids (tabs (snd (processReceiptsAndTxs demo_env demo_args empty_tx)))) = [[''a'', ''b'']] \<and>
   map (\<lambda>r. Topic1s (snd (snd r)))
     (receipt_cids (tabs (snd (processReceiptsAndTxs demo_env demo_args empty_tx)))) = [[''c'']] \<and>
   map (\<lambda>r. Topic0s (snd (snd r)))
     (receipt_cids (committed (snd (Transform demo_env empty_db 0 demo_payload)))) = [[''a'', ''b'']] \<and>
   map (\<lambda>r. Topic1s (snd (snd r)))
     (receipt_cids (committed (snd (Transform demo_env empty_db 0 demo_payload)))) = [[''c'']] \<and>
   map (\<lambda>r. Topic2s (snd (snd r)))
     (receipt_cids (committed (snd (Transform demo_env empty_db 0 demo_payload)))) = [[]]"
proof -
  note T = topic_arrays_hold_present_topics
  have vals: "rct_Logs demo_receipt = demo_logs" "receipts demo_args = [demo_receipt]"
    "receipt_cids (tabs empty_tx) = []" "receipt_cids (committed empty_db) = []"
    "map (\<lambda>l. hashString demo_env (log_Topics l ! 0))
       (filter (\<lambda>l. 0 < length (log_Topics l)) demo_logs) = [''a'', ''b'']"
    "map (\<lambda>l. hashString demo_env (log_Topics l ! 1))
       (filter (\<lambda>l. 1 < length (log_Topics l)) demo_logs) = [''c'']"
    "map (\<lambda>l. hashString demo_env (log_Topics l ! 2))
       (filter (\<lambda>l. 2 < length (log_Topics l)) demo_logs) = []"
    "map (\<lambda>l. hashString demo_env (log_Topics l ! 3))
       (filter (\<lambda>l. 3 < length (log_Topics l)) demo_logs) = []"
    by code_simp+
  have nf: "map (\<lambda>l. hashString demo_env (log_Topics l ! 0))
       (filter (\<lambda>l. log_Topics l \<noteq> []) demo_logs) = [''a'', ''b'']"
    "map (\<lambda>l. hashString demo_env (log_Topics l ! Suc 0))
       (filter (\<lambda>l. Suc 0 < length (log_Topics l)) demo_logs) = [''c'']"
    "map (\<lambda>l. hashString demo_env (log_Topics l ! 2))
       (filter (\<lambda>l. 2 < length (log_Topics l)) demo_logs) = []"
    "map (\<lambda>l. hashString demo_env (log_Topics l ! 3))
       (filter (\<lambda>l. 3 < length (log_Topics l)) demo_logs) = []"
    by code_simp+
  have ok1: "processReceiptAndTx demo_env demo_args 0 0 demo_receipt empty_tx =
      (Ok (), snd (processReceiptAndTx demo_env demo_args 0 0 demo_receipt empty_tx))"
    by code_simp
  have c1: "\<exists>rID txID m.
     receipt_cids (tabs (snd (processReceiptAndTx demo_env demo_args 0 0 demo_receipt empty_tx))) =
       [(rID, txID, m)] \<and>
     Topic0s m = [''a'', ''b''] \<and> Topic1s m = [''c''] \<and> Topic2s m = [] \<and> Topic3s m = []"
    using T [THEN conjunct1, rule_format, OF ok1] unfolding vals by simp
  have ok2: "processReceiptsAndTxs demo_env demo_args empty_tx =
      (Ok (), snd (processReceiptsAndTxs demo_env demo_args empty_tx))"
    by code_simp
  have c2: "map (\<lambda>r. Topic0s (snd (snd r)))
       (receipt_cids (tabs (snd (processReceiptsAndTxs demo_env demo_args empty_tx)))) = [[''a'', ''b'']] \<and>
     map (\<lambda>r. Topic1s (snd (snd r)))
       (receipt_cids (tabs (snd (processReceiptsAndTxs demo_env demo_args empty_tx)))) = [[''c'']]"
    using T [THEN conjunct2, THEN conjunct1, rule_format, OF ok2] by (auto simp: nf vals)
  have ok3: "Transform demo_env empty_db 0 demo_payload =
      (Returns 7 None, snd (Transform demo_env empty_db 0 demo_payload)) \<and> commit_fault demo_env = None"
    by code_simp
  have dec: "rlpDecodeBlock demo_env (BlockRlp demo_payload) = Inr demo_block"
    "rlpDecodeReceipts demo_env (ReceiptsRlp demo_payload) = Inr [demo_receipt]"
    "\<And>rs. DeriveFields demo_env rs (hdr_Hash (blk_Header demo_block)) (NumberU64 demo_block)
       (blk_Transactions demo_block) = Inr rs"
    by (simp_all add: demo_env_def demo_payload_def)
  from T [THEN conjunct2, THEN conjunct2, rule_format, OF ok3]
  obtain blk rcts0 rcts newR where
    d: "rlpDecodeBlock demo_env (BlockRlp demo_payload) = Inr blk"
      "rlpDecodeReceipts demo_env (ReceiptsRlp demo_payload) = Inr rcts0"
      "DeriveFields demo_env rcts0 (hdr_Hash (blk_Header blk)) (NumberU64 blk) (blk_Transactions blk) =
         Inr rcts" and
    rows: "receipt_cids (committed (snd (Transform demo_env empty_db 0 demo_payload))) =
        receipt_cids (committed empty_db) @ newR" and
    tops: "map (\<lambda>r. Topic0s (snd (snd r))) newR =
           map (\<lambda>rct. map (\<lambda>l. hashString demo_env (log_Topics l ! 0))
             (filter (\<lambda>l. 0 < length (log_Topics l)) (rct_Logs rct))) rcts"
       "map (\<lambda>r. Topic1s (snd (snd r))) newR =
           map (\<lambda>rct. map (\<lambda>l. hashString demo_env (log_Topics l ! 1))
             (filter (\<lambda>l. 1 < length (log_Topics l)) (rct_Logs rct))) rcts"
       "map (\<lambda>r. Topic2s (snd (snd r))) newR =
           map (\<lambda>rct. map (\<lambda>l. hashString demo_env (log_Topics l ! 2))
             (filter (\<lambda>l. 2 < length (log_Topics l)) (rct_Logs rct))) rcts"
    by blast
  from d dec have r: "rcts = [demo_receipt]" by simp
  have c3: "map (\<lambda>r. Topic0s (snd (snd r)))
       (receipt_cids (committed (snd (Transform demo_env empty_db 0 demo_payload)))) = [[''a'', ''b'']] \<and>
     map (\<lambda>r. Topic1s (snd (snd r)))
       (receipt_cids (committed (snd (Transform demo_env empty_db 0 demo_payload)))) = [[''c'']] \<and>
     map (\<lambda>r. Topic2s (snd (snd r)))
       (receipt_cids (committed (snd (Transform demo_env empty_db 0 demo_payload)))) = [[]]"
    using tops unfolding rows r by (simp add: nf vals)
  from c1 c2 c3 show ?thesis by blast
qed

text \<open>
  C3 as the specification states it fails. The first log of the receipt of this
  payload has one topic and the second has two. The claim asks for an empty-string
  slot at position 0 of \<open>topic1\<close> and the second log's topic at position 1; the
  \<open>topic1\<close> that \<open>Transform\<close> stores has the second log's topic at position 0 and
  nothing else.
\<close>

theorem topic_alignment_counterexample:
  "length (rct_Logs demo_receipt) = 2 \<and>
   length (log_Topics (rct_Logs demo_receipt ! 0)) = 1 \<and>
   log_Topics (rct_Logs demo_receipt ! 1) ! 1 = [3] \<and>
   rlpDecodeReceipts demo_env (ReceiptsRlp demo_payload) = Inr [demo_receipt] \<and>
   fst (processReceiptAndTx demo_env demo_args 0 0 demo_receipt empty_tx) = Ok () \<and>
   map (\<lambda>row. Topic1s (snd (snd row)))
     (receipt_cids (tabs (snd (processReceiptAndTx demo_env demo_args 0 0 demo_receipt empty_tx)))) =
     [[hashString demo_env [3]]] \<and>
   (case Transform demo_env empty_db 0 demo_payload of
      (r, d) \<Rightarrow> r = Returns 7 None \<and>
        map (\<lambda>row. Topic1s (snd (snd row))) (receipt_cids (committed d)) = [[hashString demo_env [3]]]) \<and>
   [hashString demo_env [3]] ! 0 \<noteq> [] \<and>
   length [hashString demo_env [3]] \<noteq> length (rct_Logs demo_receipt)"
  by code_simp

section \<open>Contract creation\<close>

text \<open>
  C6. A pass of the loop over the receipts that succeeds, for a receipt whose contract
  address is not the zero address, sets the deployment flag of the transaction row,
  stores the contract address and the string of the KECCAK-256 hash of the address in
  the receipt row, and writes as its last blob the data of the transaction under the
  key of its KECCAK-256 multihash; for the zero address the flag is false, the
  contract and contract-hash fields are empty and only the four IPLD blocks are
  written. When \<open>processReceiptsAndTxs\<close> returns without error this holds for every
  receipt \<open>k\<close>: the k-th new transaction row carries index \<open>k\<close> and the data of
  transaction \<open>k\<close>, the k-th new receipt row refers to it, and both carry the fields
  above for receipt \<open>k\<close>. When \<open>Transform\<close> returns without error and the commit
  succeeds, these are the rows and the blob found in the database. Two facts about
  go-ethereum are assumed where a contract address is not zero: its string is not
  empty, and \<open>HexToAddress\<close> reads back what \<open>Hex\<close> printed.
\<close>

theorem contract_creation_is_recorded:
  "(processReceiptAndTx E args signer i rct tx = (Ok (), tx') \<and>
    addrString E (rct_ContractAddress rct) \<noteq> [] \<and>
    HexToAddress E (addrString E (rct_ContractAddress rct)) = rct_ContractAddress rct \<longrightarrow>
    (\<exists>txID rID tm rm.
     transaction_cids (tabs tx') = transaction_cids (tabs tx) @ [(txID, headerID args, tm)] \<and>
     receipt_cids (tabs tx') = receipt_cids (tabs tx) @ [(rID, txID, rm)] \<and>
     (if rct_ContractAddress rct \<noteq> zeroAddress
      then tm_Deployment tm \<and>
           Contract rm = addrString E (rct_ContractAddress rct) \<and>
           ContractHash rm = hashString E (Keccak256Hash E (rct_ContractAddress rct)) \<and>
           last (blocks (tabs tx')) =
             (MultihashKeyFromCID E
                (CidV1 MEthStorageTrie (multihashSum E KECCAK_256 (trx_Data (txs args ! i)))),
              trx_Data (txs args ! i)) \<and>
           length (blocks (tabs tx')) = length (blocks (tabs tx)) + 5
      else \<not> tm_Deployment tm \<and> Contract rm = [] \<and> ContractHash rm = [] \<and>
           length (blocks (tabs tx')) = length (blocks (tabs tx)) + 4))) \<and>
   (processReceiptsAndTxs E args tx = (Ok (), tx') \<longrightarrow>
    (\<exists>newT newR.
     transaction_cids (tabs tx') = transaction_cids (tabs tx) @ newT \<and>
     receipt_cids (tabs tx') = receipt_cids (tabs tx) @ newR \<and>
     length newT = length (receipts args) \<and> length newR = length (receipts args) \<and>
     length (receipts args) \<le> length (txs args) \<and>
     (\<forall>k < length (receipts args).
        fst (snd (newR ! k)) = fst (newT ! k) \<and>
        tm_Index (snd (snd (newT ! k))) = int k \<and>
        tm_Data (snd (snd (newT ! k))) = trx_Data (txs args ! k) \<and>
        (if rct_ContractAddress (receipts args ! k) = zeroAddress
         then \<not> tm_Deployment (snd (snd (newT ! k))) \<and>
              Contract (snd (snd (newR ! k))) = [] \<and> ContractHash (snd (snd (newR ! k))) = []
         else (addrString E (rct_ContractAddress (receipts args ! k)) \<noteq> [] \<and>
               HexToAddress E (addrString E (rct_ContractAddress (receipts args ! k))) =
                 rct_ContractAddress (receipts args ! k) \<longrightarrow>
               tm_Deployment (snd (snd (newT ! k))) \<and>
               Contract (snd (snd (newR ! k))) = addrString E (rct_ContractAddress (receipts args ! k)) \<and>
               ContractHash (snd (snd (newR ! k))) =
                 hashString E (Keccak256Hash E (rct_ContractAddress (receipts args ! k))) \<and>
               (MultihashKeyFromCID E
                  (CidV1 MEthStorageTrie (multihashSum E KECCAK_256 (trx_Data (txs args ! k)))),
                trx_Data (txs args ! k)) \<in> set (blocks (tabs tx'))))))) \<and>
   (Transform E d w payload = (Returns n None, d') \<and> commit_fault E = None \<longrightarrow>
    (\<exists>blk rcts0 rcts newT newR.
     rlpDecodeBlock E (BlockRlp payload) = Inr blk \<and>
     rlpDecodeReceipts E (ReceiptsRlp payload) = Inr rcts0 \<and>
     DeriveFields E rcts0 (hdr_Hash (blk_Header blk)) (NumberU64 blk) (blk_Transactions blk) = Inr rcts \<and>
     transaction_cids (committed d') = transaction_cids (committed d) @ newT \<and>
     receipt_cids (committed d') = receipt_cids (committed d) @ newR \<and>
     length newT = length rcts \<and> length newR = length rcts \<and>
     length rcts \<le> length (blk_Transactions blk) \<and>
     (\<forall>k < length rcts.
        fst (snd (newR ! k)) = fst (newT ! k) \<and>
        tm_Index (snd (snd (newT ! k))) = int k \<and>
        tm_Data (snd (snd (newT ! k))) = trx_Data (blk_Transactions blk ! k) \<and>
        (if rct_ContractAddress (rcts ! k) = zeroAddress
         then \<not> tm_Deployment (snd (snd (newT ! k))) \<and>
              Contract (snd (snd (newR ! k))) = [] \<and> ContractHash (snd (snd (newR ! k))) = []
         else (addrString E (rct_ContractAddress (rcts ! k)) \<noteq> [] \<and>
               HexToAddress E (addrString E (rct_ContractAddress (rcts ! k))) =
                 rct_ContractAddress (rcts ! k) \<longrightarrow>
               tm_Deployment (snd (snd (newT ! k))) \<and>
               Contract (snd (snd (newR ! k))) = addrString E (rct_ContractAddress (rcts ! k)) \<and>
               ContractHash (snd (snd (newR ! k))) =
                 hashString E (Keccak256Hash E (rct_ContractAddress (rcts ! k))) \<and>
               (MultihashKeyFromCID E
                  (CidV1 MEthStorageTrie
                     (multihashSum E KECCAK_256 (trx_Data (blk_Transactions blk ! k)))),
                trx_Data (blk_Transactions blk ! k)) \<in> set (blocks (committed d')))))))"
  using processReceiptAndTx_creation [of E args signer i rct tx tx']
    processReceiptsAndTxs_creation [of E args tx tx']
    Transform_creation [of E d w payload n d']
  by blast

theorem contract_creation_is_recorded_witness:
  "(\<exists>txID rID tm rm.
     transaction_cids (tabs (snd (processReceiptAndTx demo_env demo_args 0 0 demo_receipt empty_tx))) =
       [(txID, 1, tm)] \<and>
     receipt_cids (tabs (snd (processReceiptAndTx demo_env demo_args 0 0 demo_receipt empty_tx))) =
       [(rID, txID, rm)] \<and>
     tm_Deployment tm \<and> Contract rm = ''zzzzzzzzzzzzzzzzzzza'' \<and>
     ContractHash rm = ''czzzzzzzzzzzzzzzzzzza'' \<and>
     last (blocks (tabs (snd (processReceiptAndTx demo_env demo_args 0 0 demo_receipt empty_tx)))) =
       (''kbzz'', [96, 128])) \<and>
   map (\<lambda>r. tm_Deployment (snd (snd r)))
     (transaction_cids (tabs (snd (processReceiptsAndTxs demo_env demo_args empty_tx)))) = [True] \<and>
   map (\<lambda>r. tm_Deployment (snd (snd r)))
     (transaction_cids (committed (snd (Transform demo_env empty_db 0 demo_payload)))) = [True] \<and>
   map (\<lambda>r. Contract (snd (snd r)))
     (receipt_cids (committed (snd (Transform demo_env empty_db 0 demo_payload)))) =
     [''zzzzzzzzzzzzzzzzzzza''] \<and>
   map (\<lambda>r. ContractHash (snd (snd r)))
     (receipt_cids (committed (snd (Transform demo_env empty_db 0 demo_payload)))) =
     [''czzzzzzzzzzzzzzzzzzza''] \<and>
   (''kbzz'', [96, 128]) \<in> set (blocks (committed (snd (Transform demo_env empty_db 0 demo_payload))))"
proof -
  note T = contract_creation_is_recorded
  have nz: "rct_ContractAddress demo_receipt \<noteq> zeroAddress"
    by code_simp
  have lib: "addrString demo_env (rct_ContractAddress demo_receipt) \<noteq> []"
    "HexToAddress demo_env (addrString demo_env (rct_ContractAddress demo_receipt)) =
      rct_ContractAddress demo_receipt"
    by code_simp+
  have vals: "addrString demo_env (rct_ContractAddress demo_receipt) = ''zzzzzzzzzzzzzzzzzzza''"
    "hashString demo_env (Keccak256Hash demo_env (rct_ContractAddress demo_receipt)) = ''czzzzzzzzzzzzzzzzzzza''"
    "MultihashKeyFromCID demo_env
       (CidV1 MEthStorageTrie (multihashSum demo_env KECCAK_256 [96, 128])) = ''kbzz''"
    "trx_Data (txs demo_args ! 0) = [96, 128]" "headerID demo_args = 1"
    "trx_Data (blk_Transactions demo_block ! 0) = [96, 128]"
    "transaction_cids (tabs empty_tx) = []" "receipt_cids (tabs empty_tx) = []"
    "transaction_cids (committed empty_db) = []" "receipt_cids (committed empty_db) = []"
    "receipts demo_args = [demo_receipt]"
    by code_simp+
  have ok1: "processReceiptAndTx demo_env demo_args 0 0 demo_receipt empty_tx =
      (Ok (), snd (processReceiptAndTx demo_env demo_args 0 0 demo_receipt empty_tx))"
    by code_simp
  have c1: "\<exists>txID rID tm rm.
     transaction_cids (tabs (snd (processReceiptAndTx demo_env demo_args 0 0 demo_receipt empty_tx))) =
       [(txID, 1, tm)] \<and>
     receipt_cids (tabs (snd (processReceiptAndTx demo_env demo_args 0 0 demo_receipt empty_tx))) =
       [(rID, txID, rm)] \<and>
     tm_Deployment tm \<and> Contract rm = ''zzzzzzzzzzzzzzzzzzza'' \<and>
     ContractHash rm = ''czzzzzzzzzzzzzzzzzzza'' \<and>
     last (blocks (tabs (snd (processReceiptAndTx demo_env demo_args 0 0 demo_receipt empty_tx)))) =
       (''kbzz'', [96, 128])"
    using T [THEN conjunct1, rule_format, OF conjI [OF ok1 conjI [OF lib]]]
    unfolding vals using nz by (simp add: vals) blast
  have ok2: "processReceiptsAndTxs demo_env demo_args empty_tx =
      (Ok (), snd (processReceiptsAndTxs demo_env demo_args empty_tx))"
    by code_simp
  have c2: "map (\<lambda>r. tm_Deployment (snd (snd r)))
     (transaction_cids (tabs (snd (processReceiptsAndTxs demo_env demo_args empty_tx)))) = [True]"
    using T [THEN conjunct2, THEN conjunct1, rule_format, OF ok2] nz lib
    by (auto simp: vals length_Suc_conv)
  have ok3: "Transform demo_env empty_db 0 demo_payload =
      (Returns 7 None, snd (Transform demo_env empty_db 0 demo_payload)) \<and> commit_fault demo_env = None"
    by code_simp
  have dec: "rlpDecodeBlock demo_env (BlockRlp demo_payload) = Inr demo_block"
    "rlpDecodeReceipts demo_env (ReceiptsRlp demo_payload) = Inr [demo_receipt]"
    "\<And>rs. DeriveFields demo_env rs (hdr_Hash (blk_Header demo_block)) (NumberU64 demo_block)
       (blk_Transactions demo_block) = Inr rs"
    by (simp_all add: demo_env_def demo_payload_def)
  let ?d = "snd (Transform demo_env empty_db 0 demo_payload)"
  have c3: "map (\<lambda>r. tm_Deployment (snd (snd r))) (transaction_cids (committed ?d)) = [True] \<and>
    map (\<lambda>r. Contract (snd (snd r))) (receipt_cids (committed ?d)) = [''zzzzzzzzzzzzzzzzzzza''] \<and>
    map (\<lambda>r. ContractHash (snd (snd r))) (receipt_cids (committed ?d)) = [''czzzzzzzzzzzzzzzzzzza''] \<and>
    (''kbzz'', [96, 128]) \<in> set (blocks (committed ?d))"
    using T [THEN conjunct2, THEN conjunct2, rule_format, OF ok3] nz lib
    by (auto simp: dec vals length_Suc_conv)
  from c1 c2 c3 show ?thesis by blast
qed

section \<open>How Transform ends\<close>

text \<open>
  C7. When the statements that run inside the open transaction panic, \<open>Transform\<close>
  rolls the transaction back and panics with the same value. Whenever \<open>Transform\<close>
  panics, the committed tables are those of before the call and the only transaction
  control calls were \<open>Beginx\<close> and \<open>Rollback\<close>: the transaction was not committed.
\<close>

theorem panic_rolls_back_then_propagates:
  "(rlpDecodeBlock E (BlockRlp payload) = Inr blk \<and>
    rlpDecodeReceipts E (ReceiptsRlp payload) = Inr rcts0 \<and>
    DeriveFields E rcts0 (hdr_Hash (blk_Header blk)) (NumberU64 blk) (blk_Transactions blk) = Inr rcts \<and>
    FromBlockAndReceipts E blk rcts = Inr (hn, us, txNs, txTrieNs, rctNs, rctTrieNs) \<and>
    \<not> shapeMismatch txNs txTrieNs rctNs rctTrieNs \<and>
    begin_fault E = None \<and>
    Transform_body E payload blk rcts hn us txNs txTrieNs rctNs rctTrieNs
      \<lparr>tabs = committed d, opcount = 0\<rparr> = (Panics p, err, tx') \<longrightarrow>
    Transform E d w payload = (Panics p, d\<lparr>events := events d @ [TxBegin, TxRollback]\<rparr>)) \<and>
   (Transform E d w payload = (Panics q, d') \<longrightarrow>
    committed d' = committed d \<and> events d' = events d @ [TxBegin, TxRollback])"
proof (intro conjI impI)
  assume a: "rlpDecodeBlock E (BlockRlp payload) = Inr blk \<and>
    rlpDecodeReceipts E (ReceiptsRlp payload) = Inr rcts0 \<and>
    DeriveFields E rcts0 (hdr_Hash (blk_Header blk)) (NumberU64 blk) (blk_Transactions blk) = Inr rcts \<and>
    FromBlockAndReceipts E blk rcts = Inr (hn, us, txNs, txTrieNs, rctNs, rctTrieNs) \<and>
    \<not> shapeMismatch txNs txTrieNs rctNs rctTrieNs \<and>
    begin_fault E = None \<and>
    Transform_body E payload blk rcts hn us txNs txTrieNs rctNs rctTrieNs
      \<lparr>tabs = committed d, opcount = 0\<rparr> = (Panics p, err, tx')"
  then have "Transform E d w payload =
      Transform_deferred E (d\<lparr>events := events d @ [TxBegin]\<rparr>) tx' (Panics p) err"
    using Transform_after_begin [of E payload blk rcts0 rcts hn us txNs txTrieNs rctNs rctTrieNs d
        "Panics p" err tx' w]
    by simp
  then show "Transform E d w payload = (Panics p, d\<lparr>events := events d @ [TxBegin, TxRollback]\<rparr>)"
    by (simp add: Transform_deferred_def Rollback_def)
next
  assume "Transform E d w payload = (Panics q, d')"
  from Transform_Panics [OF this] show "committed d' = committed d" by simp
next
  assume "Transform E d w payload = (Panics q, d')"
  from Transform_Panics [OF this] show "events d' = events d @ [TxBegin, TxRollback]" by simp
qed


theorem panic_rolls_back_then_propagates_witness:
  "Transform five_topics_env empty_db 0 demo_payload =
     (Panics (IndexOutOfRange 4 4), empty_db\<lparr>events := events empty_db @ [TxBegin, TxRollback]\<rparr>) \<and>
   committed (snd (Transform five_topics_env empty_db 0 demo_payload)) = committed empty_db"
proof -
  let ?body = "Transform_body five_topics_env demo_payload demo_block [five_topics_receipt]
      (demo_node 0) [] [demo_node 1] [demo_node 2] [demo_node 3] [demo_node 4]
      \<lparr>tabs = committed empty_db, opcount = 0\<rparr>"
  have pre: "rlpDecodeBlock five_topics_env (BlockRlp demo_payload) = Inr demo_block"
    "rlpDecodeReceipts five_topics_env (ReceiptsRlp demo_payload) = Inr [five_topics_receipt]"
    "DeriveFields five_topics_env [five_topics_receipt] (hdr_Hash (blk_Header demo_block))
       (NumberU64 demo_block) (blk_Transactions demo_block) = Inr [five_topics_receipt]"
    "FromBlockAndReceipts five_topics_env demo_block [five_topics_receipt] =
       Inr (demo_node 0, [], [demo_node 1], [demo_node 2], [demo_node 3], [demo_node 4])"
    "\<not> shapeMismatch [demo_node 1] [demo_node 2] [demo_node 3] [demo_node 4]"
    "begin_fault five_topics_env = None"
    by code_simp+
  have body: "?body = (Panics (IndexOutOfRange 4 4), fst (snd ?body), snd (snd ?body))"
    by code_simp
  from panic_rolls_back_then_propagates [of five_topics_env demo_payload demo_block
      "[five_topics_receipt]" "[five_topics_receipt]"
      "demo_node 0" "[]" "[demo_node 1]" "[demo_node 2]" "[demo_node 3]" "[demo_node 4]" empty_db
      "IndexOutOfRange 4 4" "fst (snd ?body)" "snd (snd ?body)" 0
      "IndexOutOfRange 4 4" "empty_db\<lparr>events := events empty_db @ [TxBegin, TxRollback]\<rparr>"]
    pre body
  show ?thesis by simp
qed

text \<open>
  C9. When the payload decodes, the transaction opens and every step inside it
  succeeds, but \<open>Commit\<close> fails, \<open>Transform\<close> returns the block number and a nil
  error: the values of the \<open>return\<close> statement were fixed before the deferred closure
  stored the commit error in \<open>err\<close>. Nothing is committed.
\<close>

theorem commit_failure_is_not_returned:
  assumes "rlpDecodeBlock E (BlockRlp payload) = Inr blk"
    and "rlpDecodeReceipts E (ReceiptsRlp payload) = Inr rcts0"
    and "DeriveFields E rcts0 (hdr_Hash (blk_Header blk)) (NumberU64 blk) (blk_Transactions blk) = Inr rcts"
    and "FromBlockAndReceipts E blk rcts = Inr (hn, us, txNs, txTrieNs, rctNs, rctTrieNs)"
    and "\<not> shapeMismatch txNs txTrieNs rctNs rctTrieNs"
    and "begin_fault E = None"
    and body: "Transform_body E payload blk rcts hn us txNs txTrieNs rctNs rctTrieNs
           \<lparr>tabs = committed d, opcount = 0\<rparr> = (Returns n None, err, tx')"
    and commit: "commit_fault E = Some ce"
  shows "Transform E d w payload =
     (Returns (Int64 (hdr_Number (blk_Header blk))) None,
      d\<lparr>events := events d @ [TxBegin, TxCommitFailed ce]\<rparr>)"
proof -
  from Transform_body_success [OF body] have e: "err = None" and n: "n = Int64 (hdr_Number (blk_Header blk))"
    by simp_all
  from assms(1-6) body have "Transform E d w payload =
      Transform_deferred E (d\<lparr>events := events d @ [TxBegin]\<rparr>) tx' (Returns n None) err"
    by (rule Transform_after_begin)
  with e n commit show ?thesis
    by (simp add: Transform_deferred_def Commit_def)
qed


theorem commit_failure_is_not_returned_witness:
  "Transform commit_fail_env empty_db 0 demo_payload =
     (Returns 7 None,
      empty_db\<lparr>events := events empty_db @ [TxBegin, TxCommitFailed (External ''commit failed'')]\<rparr>)"
proof -
  let ?body = "Transform_body commit_fail_env demo_payload demo_block [demo_receipt] (demo_node 0) []
      [demo_node 1] [demo_node 2] [demo_node 3] [demo_node 4] \<lparr>tabs = committed empty_db, opcount = 0\<rparr>"
  have pre: "rlpDecodeBlock commit_fail_env (BlockRlp demo_payload) = Inr demo_block"
    "rlpDecodeReceipts commit_fail_env (ReceiptsRlp demo_payload) = Inr [demo_receipt]"
    "DeriveFields commit_fail_env [demo_receipt] (hdr_Hash (blk_Header demo_block)) (NumberU64 demo_block)
       (blk_Transactions demo_block) = Inr [demo_receipt]"
    "FromBlockAndReceipts commit_fail_env demo_block [demo_receipt] =
       Inr (demo_node 0, [], [demo_node 1], [demo_node 2], [demo_node 3], [demo_node 4])"
    "\<not> shapeMismatch [demo_node 1] [demo_node 2] [demo_node 3] [demo_node 4]"
    "begin_fault commit_fail_env = None"
    by code_simp+
  have body: "?body = (Returns 7 None, fst (snd ?body), snd (snd ?body))"
    by code_simp
  have cf: "commit_fault commit_fail_env = Some (External ''commit failed'')"
    by code_simp
  have n: "Int64 (hdr_Number (blk_Header demo_block)) = 7"
    by code_simp
  from commit_failure_is_not_returned [OF pre body cf, of 0] n show ?thesis
    by simp
qed

text \<open>
  C1 fails on the code. The \<open>if\<close> of lines 87 to 89 joins the three comparisons with
  \<open>&&\<close>, so it rejects only when all three pairs differ. Here the codec returns one
  transaction node, two transaction trie nodes, one receipt node and one receipt trie
  node: the lengths are not all equal, the condition is false, and \<open>Transform\<close> opens
  the transaction, indexes the payload, commits and returns the block number with a
  nil error instead of a shape mismatch.
\<close>

theorem shape_check_accepts_unequal_lengths:
  "FromBlockAndReceipts shape_env demo_block [demo_receipt] =
     Inr (demo_node 0, [], [demo_node 1], [demo_node 2, demo_node 2], [demo_node 3], [demo_node 4]) \<and>
   length [demo_node 1] \<noteq> length [demo_node 2, demo_node 2] \<and>
   \<not> shapeMismatch [demo_node 1] [demo_node 2, demo_node 2] [demo_node 3] [demo_node 4] \<and>
   (case Transform shape_env empty_db 0 demo_payload of
      (r, d) \<Rightarrow> r = Returns 7 None \<and> events d = [TxBegin, TxCommit] \<and>
        length (receipt_cids (committed d)) = 1)"
  by code_simp

text \<open>
  C2 fails on the code. The state object of this payload does not decode. The error
  is held by the \<open>err\<close> of the \<open>if\<close> statement of line 132; the \<open>err\<close> that the
  deferred closure reads is still nil, so the closure commits. \<open>Transform\<close> returns
  block number 0 and the error, and the header, transaction and receipt rows written
  before the failure are committed.
\<close>

theorem later_error_commits_partial_rows:
  "rlpDecodeStateObject demo_env (StateObjectRlp (demo_payload\<lparr>StateObjectRlp := []\<rparr>)) =
     Inl (External ''rlp: state object'') \<and>
   (case Transform demo_env empty_db 0 (demo_payload\<lparr>StateObjectRlp := []\<rparr>) of
      (r, d) \<Rightarrow> r = Returns 0 (Some (External ''rlp: state object'')) \<and>
        events d = [TxBegin, TxCommit] \<and>
        length (header_cids (committed d)) = 1 \<and>
        length (transaction_cids (committed d)) = 1 \<and>
        length (receipt_cids (committed d)) = 1)"
  by code_simp

text \<open>
  C5 fails on the code. The only state node of this payload is a leaf whose value
  decodes to a list of one element. \<open>processStateAndStorage\<close> has written the state
  row of the leaf when it returns the error of line 322; that error is held by the
  \<open>err\<close> of the \<open>if\<close> statement of line 136, so the deferred closure commits.
  \<open>Transform\<close> returns block number 0 and the error, and the database holds a
  state row of type leaf with no account row.
\<close>

theorem malformed_leaf_commits_state_row_without_account:
  "rlpDecodeList bad_leaf_env [2] = Inr [RBytes []] \<and>
   (case Transform bad_leaf_env empty_db 0 demo_payload of
      (r, d) \<Rightarrow> r = Returns 0 (Some LeafNotTwoElements) \<and>
        events d = [TxBegin, TxCommit] \<and>
        map (\<lambda>row. snm_NodeType (snd (snd row))) (state_cids (committed d)) =
          [ResolveFromNodeType bad_leaf_env Leaf] \<and>
        state_accounts (committed d) = [])"
  by code_simp

end
